theory Spec2Isabelle
  imports Complex_Main
begin

section \<open>JavaScript values\<close>

text \<open>
  The values the two handlers see are what \<^verbatim>\<open>JSON.parse\<close> and the HTTP body parser
  produce, plus \<^verbatim>\<open>undefined\<close> (a missing property, a missing body).  A JSON number is a
  double; every finite double is a rational.  An object is the list of its properties, each
  key once, as a parser leaves it.
\<close>

datatype js =
    JUndefined
  | JNull
  | JBool bool
  | JNum rat
  | JStr string
  | JArr "js list"
  | JObj "(string \<times> js) list"

text \<open>JavaScript's \<^verbatim>\<open>ToBoolean\<close>, the test behind \<^verbatim>\<open>!x\<close>, \<^verbatim>\<open>x || y\<close> and \<^verbatim>\<open>if (x)\<close>.\<close>

fun truthy :: "js \<Rightarrow> bool" where
  "truthy JUndefined = False"
| "truthy JNull = False"
| "truthy (JBool b) = b"
| "truthy (JNum n) = (n \<noteq> 0)"
| "truthy (JStr s) = (s \<noteq> [])"
| "truthy (JArr xs) = True"
| "truthy (JObj kvs) = True"

fun typeof :: "js \<Rightarrow> string" where
  "typeof JUndefined = ''undefined''"
| "typeof JNull = ''object''"
| "typeof (JBool b) = ''boolean''"
| "typeof (JNum n) = ''number''"
| "typeof (JStr s) = ''string''"
| "typeof (JArr xs) = ''object''"
| "typeof (JObj kvs) = ''object''"

datatype exn =
    SyntaxError
  | TypeError
  | PrismaError
  | PublishError

text \<open>
  A property read \<^verbatim>\<open>v.k\<close>, for the keys the handlers read (\<^verbatim>\<open>traceId\<close>, \<^verbatim>\<open>type\<close>,
  \<^verbatim>\<open>taskId\<close>, \<^verbatim>\<open>agentId\<close>, \<^verbatim>\<open>source\<close>, \<^verbatim>\<open>payload\<close>): it throws a
  \<^verbatim>\<open>TypeError\<close> on \<^verbatim>\<open>null\<close> and \<^verbatim>\<open>undefined\<close>, finds the key in an object, and is
  \<^verbatim>\<open>undefined\<close> on every other value (no array, string, number or boolean has one of
  these keys).
\<close>

fun js_get :: "js \<Rightarrow> string \<Rightarrow> exn + js" where
  "js_get JUndefined k = Inl TypeError"
| "js_get JNull k = Inl TypeError"
| "js_get (JObj kvs) k = Inr (case map_of kvs k of None \<Rightarrow> JUndefined | Some v \<Rightarrow> v)"
| "js_get v k = Inr JUndefined"

text \<open>\<^verbatim>\<open>a || b\<close> and \<^verbatim>\<open>a ?? b\<close> on values already computed.\<close>

definition js_or :: "js \<Rightarrow> js \<Rightarrow> js" where
  "js_or a b = (if truthy a then a else b)"

definition js_nullish :: "js \<Rightarrow> js \<Rightarrow> js" where
  "js_nullish a b = (if a = JUndefined \<or> a = JNull then b else a)"

section \<open>Rows, messages and the world\<close>

text \<open>
  Modelled from the spec: the Prisma schema is not among the sources, so the rows carry
  the fields of section 3 of the specification that the handlers write or read (not the
  creation times, which the store fills in, nor an agent's tools, which the handlers never
  load).  A column the handlers fill from message data (\<^verbatim>\<open>traceId\<close>, a usage log's
  \<^verbatim>\<open>agentId\<close>) holds the JavaScript value handed over; whether the store accepts it is
  the store's choice (see \<open>store_rejects\<close> below).  A span's status defaults to
  \<^verbatim>\<open>OK\<close>.
\<close>

record agent =
  agent_id :: string
  agent_name :: string
  agent_role :: string
  agent_goal :: string
  agent_systemPrompt :: string

record task =
  task_id :: string
  task_description :: string
  task_inputPayload :: js
  task_agentId :: string

record usageLog =
  log_id :: string
  log_agentId :: js
  log_action :: string
  log_tokens :: int
  log_costUsd :: rat
  log_metadata :: js

record traceSpan =
  span_id :: string
  span_traceId :: js
  span_parentId :: "string option"
  span_service :: string
  span_operation :: string
  span_durationMs :: "int option"
  span_status :: string
  span_metadata :: js

text \<open>A delivered Pub/Sub message, and a message accepted by the topic.\<close>

record message =
  msg_id :: string
  msg_data :: string
  msg_attributes :: "(string \<times> string) list"

record published =
  pub_messageId :: string
  pub_data :: string
  pub_attributes :: "(string \<times> string) list"

text \<open>
  What a handler tells the subscription about a delivery (\<^verbatim>\<open>message.ack()\<close>,
  \<^verbatim>\<open>message.nack()\<close>), and a line of the log (\<^verbatim>\<open>console.log\<close>, \<^verbatim>\<open>console.error\<close>,
  the gateway's logger): the fixed words of the source's message and the values it prints.
\<close>

datatype settle = Ack string | Nack string

datatype log_line =
    Log string "js list"
  | LogError string "js list" exn

record counters =
  totalReceived :: nat
  totalPublished :: nat
  totalFailed :: nat
  startedAt :: string

record reply =
  reply_status :: nat
  reply_body :: js

text \<open>
  Everything the handlers read or change: the store's four tables, the topic, the
  acknowledgements sent to the subscription, the gateway's \<^verbatim>\<open>auditCounters\<close>, the
  console, the wall clock, and the number of interactions with the outside so far.
\<close>

record world =
  agents :: "agent list"
  tasks :: "task list"
  usageLogs :: "usageLog list"
  traceSpans :: "traceSpan list"
  topic :: "published list"
  settled :: "settle list"
  auditCounters :: counters
  console :: "log_line list"
  now :: int
  tick :: nat

text \<open>
  What the outside decides.  \<open>JSON_parse\<close> is \<open>None\<close> where \<^verbatim>\<open>JSON.parse\<close> throws;
  \<open>js_toString\<close> is the string conversion of a template literal.  The other fields are
  read at the current \<open>tick\<close>: the identifier \<^verbatim>\<open>randomUUID()\<close> or the store's id default
  returns, the milliseconds by which a reading of \<^verbatim>\<open>Date.now()\<close> differs from the reading
  before it (the wall clock can be set back, so the difference can be negative), whether
  the store rejects an operation, and the message id of a publish (\<open>None\<close> where the
  publish fails).
\<close>

record env =
  JSON_parse :: "string \<Rightarrow> js option"
  JSON_stringify :: "js \<Rightarrow> string"
  js_toString :: "js \<Rightarrow> string"
  toISOString :: "int \<Rightarrow> string"
  TOPIC_NAME :: string
  uuid_at :: "nat \<Rightarrow> string"
  elapsed_at :: "nat \<Rightarrow> int"
  store_rejects :: "nat \<Rightarrow> bool"
  publish_at :: "nat \<Rightarrow> string option"

section \<open>Effects: state, exceptions, awaited promises\<close>

text \<open>
  An \<^verbatim>\<open>async\<close> computation whose every promise is awaited runs in sequence: it takes the
  world and returns the changed world with either the exception thrown or the value.
\<close>

type_synonym 'a io = "world \<Rightarrow> (exn + 'a) \<times> world"

definition io_return :: "'a \<Rightarrow> 'a io" where
  "io_return a w = (Inr a, w)"

definition io_throw :: "exn \<Rightarrow> 'a io" where
  "io_throw x w = (Inl x, w)"

definition io_of :: "exn + 'a \<Rightarrow> 'a io" where
  "io_of r w = (r, w)"

definition io_bind :: "'a io \<Rightarrow> ('a \<Rightarrow> 'b io) \<Rightarrow> 'b io" where
  "io_bind f g w = (case f w of (Inl x, w') \<Rightarrow> (Inl x, w') | (Inr a, w') \<Rightarrow> g a w')"

text \<open>\<^verbatim>\<open>try { f } catch (err) { h }\<close> and \<^verbatim>\<open>f.catch(() => { })\<close>.\<close>

definition try_catch :: "'a io \<Rightarrow> (exn \<Rightarrow> 'a io) \<Rightarrow> 'a io" where
  "try_catch f h w = (case f w of (Inl x, w') \<Rightarrow> h x w' | (Inr a, w') \<Rightarrow> (Inr a, w'))"

definition swallow :: "'a io \<Rightarrow> unit io" where
  "swallow f w = (Inr (), snd (f w))"

definition Date_now :: "env \<Rightarrow> int io" where
  "Date_now e w =
     (let t = now w + elapsed_at e (tick w)
      in (Inr t, w\<lparr>now := t, tick := Suc (tick w)\<rparr>))"

definition randomUUID :: "env \<Rightarrow> string io" where
  "randomUUID e w = (Inr (uuid_at e (tick w)), w\<lparr>tick := Suc (tick w)\<rparr>)"

definition console_log :: "string \<Rightarrow> js list \<Rightarrow> unit io" where
  "console_log text args w = (Inr (), w\<lparr>console := console w @ [Log text args]\<rparr>)"

definition console_error :: "string \<Rightarrow> js list \<Rightarrow> exn \<Rightarrow> unit io" where
  "console_error text args err w =
     (Inr (), w\<lparr>console := console w @ [LogError text args err]\<rparr>)"

definition message_ack :: "message \<Rightarrow> unit io" where
  "message_ack m w = (Inr (), w\<lparr>settled := settled w @ [Ack (msg_id m)]\<rparr>)"

section \<open>The store\<close>

text \<open>
  Modelled from the spec: the persistence engine is an external CRUD collaborator
  (sections 1 and 6).  An operation is rejected when the outside says so, when a created
  row's id is already in its table, or when the row to update does not exist; a rejected
  operation throws and changes no table.  A row created without an id gets the id the
  outside returns.  Rows are kept in the order of their creation.
\<close>

definition traceSpan_create ::
  "env \<Rightarrow> string option \<Rightarrow> js \<Rightarrow> string option \<Rightarrow> string \<Rightarrow> string \<Rightarrow> int option \<Rightarrow> js
     \<Rightarrow> traceSpan io" where
  "traceSpan_create e ido traceId parentId service operation duration metadata w =
     (let i = (case ido of Some i \<Rightarrow> i | None \<Rightarrow> uuid_at e (tick w));
          sp = \<lparr>span_id = i, span_traceId = traceId, span_parentId = parentId,
                span_service = service, span_operation = operation,
                span_durationMs = duration, span_status = ''OK'',
                span_metadata = metadata\<rparr>
      in if store_rejects e (tick w) \<or> i \<in> span_id ` set (traceSpans w)
         then (Inl PrismaError, w\<lparr>tick := Suc (tick w)\<rparr>)
         else (Inr sp, w\<lparr>traceSpans := traceSpans w @ [sp], tick := Suc (tick w)\<rparr>))"

definition close_span :: "string \<Rightarrow> string option \<Rightarrow> int \<Rightarrow> traceSpan \<Rightarrow> traceSpan" where
  "close_span i st d sp =
     (if span_id sp = i
      then sp\<lparr>span_durationMs := Some d,
              span_status := (case st of None \<Rightarrow> span_status sp | Some s \<Rightarrow> s)\<rparr>
      else sp)"

definition traceSpan_update :: "env \<Rightarrow> string \<Rightarrow> string option \<Rightarrow> int \<Rightarrow> unit io" where
  "traceSpan_update e i st d w =
     (if store_rejects e (tick w) \<or> i \<notin> span_id ` set (traceSpans w)
      then (Inl PrismaError, w\<lparr>tick := Suc (tick w)\<rparr>)
      else (Inr (), w\<lparr>traceSpans := map (close_span i st d) (traceSpans w),
                       tick := Suc (tick w)\<rparr>))"

definition agent_findFirst :: "env \<Rightarrow> js \<Rightarrow> agent option io" where
  "agent_findFirst e role w =
     (if store_rejects e (tick w) then (Inl PrismaError, w\<lparr>tick := Suc (tick w)\<rparr>)
      else (Inr (find (\<lambda>a. JStr (agent_role a) = role) (agents w)),
            w\<lparr>tick := Suc (tick w)\<rparr>))"

definition task_create :: "env \<Rightarrow> string \<Rightarrow> js \<Rightarrow> string \<Rightarrow> task io" where
  "task_create e description inputPayload agentId w =
     (let t = \<lparr>task_id = uuid_at e (tick w), task_description = description,
               task_inputPayload = inputPayload, task_agentId = agentId\<rparr>
      in if store_rejects e (tick w) \<or> task_id t \<in> task_id ` set (tasks w)
         then (Inl PrismaError, w\<lparr>tick := Suc (tick w)\<rparr>)
         else (Inr t, w\<lparr>tasks := tasks w @ [t], tick := Suc (tick w)\<rparr>))"

definition usageLog_create :: "env \<Rightarrow> js \<Rightarrow> string \<Rightarrow> int \<Rightarrow> rat \<Rightarrow> js \<Rightarrow> usageLog io" where
  "usageLog_create e agentId action tokens costUsd metadata w =
     (let u = \<lparr>log_id = uuid_at e (tick w), log_agentId = agentId, log_action = action,
               log_tokens = tokens, log_costUsd = costUsd, log_metadata = metadata\<rparr>
      in if store_rejects e (tick w) \<or> log_id u \<in> log_id ` set (usageLogs w)
         then (Inl PrismaError, w\<lparr>tick := Suc (tick w)\<rparr>)
         else (Inr u, w\<lparr>usageLogs := usageLogs w @ [u], tick := Suc (tick w)\<rparr>))"

text \<open>\<^verbatim>\<open>topic.publishMessage\<close>: the topic takes the message and names it, or the call throws.\<close>

definition publishMessage :: "env \<Rightarrow> string \<Rightarrow> (string \<times> string) list \<Rightarrow> string io" where
  "publishMessage e dat attrs w =
     (case publish_at e (tick w) of
        None \<Rightarrow> (Inl PublishError, w\<lparr>tick := Suc (tick w)\<rparr>)
      | Some mid \<Rightarrow>
          (Inr mid,
           w\<lparr>topic := topic w @ [\<lparr>pub_messageId = mid, pub_data = dat, pub_attributes = attrs\<rparr>],
             tick := Suc (tick w)\<rparr>))"

section \<open>The orchestrator worker: \<^verbatim>\<open>handleMessage\<close>\<close>

definition attr_traceId :: "message \<Rightarrow> js" where
  "attr_traceId m =
     (case map_of (msg_attributes m) ''traceId'' of None \<Rightarrow> JUndefined | Some v \<Rightarrow> JStr v)"

text \<open>Lines 32 to 34: parse the data and log it.\<close>

definition parse_message :: "env \<Rightarrow> message \<Rightarrow> js io" where
  "parse_message e m =
     (case JSON_parse e (msg_data m) of
        None \<Rightarrow> io_throw SyntaxError
      | Some data \<Rightarrow>
          io_bind (console_log ''Received message'' [JStr (msg_id m)]) (\<lambda>_.
          io_bind (console_log ''Data:'' [data]) (\<lambda>_.
          io_return data)))"

text \<open>
  Lines 38 to 45: \<^verbatim>\<open>message.attributes?.traceId || data.traceId || randomUUID()\<close>, and the
  log line that tells an inherited id from a generated one.  \<^verbatim>\<open>data.traceId\<close> is read only
  when the attribute is falsy.
\<close>

definition resolve_traceId :: "env \<Rightarrow> message \<Rightarrow> js \<Rightarrow> js io" where
  "resolve_traceId e m data =
     io_bind
       (if truthy (attr_traceId m) then io_return (attr_traceId m)
        else io_bind (io_of (js_get data ''traceId'')) (\<lambda>d.
             if truthy d then io_return d
             else io_bind (randomUUID e) (\<lambda>u. io_return (JStr u)))) (\<lambda>traceId.
     io_bind
       (if truthy (attr_traceId m) then io_return (attr_traceId m)
        else io_of (js_get data ''traceId'')) (\<lambda>inherited.
     io_bind
       (if truthy inherited then console_log ''Trace ID (inherited)'' [traceId]
        else console_log ''Trace ID (generated)'' [traceId]) (\<lambda>_.
     io_return traceId)))"

text \<open>
  The \<^verbatim>\<open>try\<close> block up to the assignment of the local \<^verbatim>\<open>traceId\<close>.  The \<^verbatim>\<open>catch\<close> block
  reads that local, which is still \<^verbatim>\<open>''\<close> when an exception leaves this part.
\<close>

definition open_trace :: "env \<Rightarrow> message \<Rightarrow> (js \<times> js) io" where
  "open_trace e m =
     io_bind (parse_message e m) (\<lambda>data.
     io_bind (resolve_traceId e m data) (\<lambda>traceId.
     io_return (data, traceId)))"

text \<open>Lines 60 to 96: a \<^verbatim>\<open>RESUME\<close> signal.\<close>

definition handle_resume :: "env \<Rightarrow> message \<Rightarrow> int \<Rightarrow> string \<Rightarrow> js \<Rightarrow> js \<Rightarrow> unit io" where
  "handle_resume e m rootStart rootSpanId data traceId =
     io_bind (io_of (js_get data ''taskId'')) (\<lambda>taskId.
     io_bind (console_log ''RESUMING AGENT for Task'' [taskId]) (\<lambda>_.
     io_bind (io_of (js_get data ''agentId'')) (\<lambda>agentId.
     io_bind
       (if truthy agentId
        then io_bind (usageLog_create e agentId ''resume'' 50 (5 / 10000)
                        (JObj [(''taskId'', taskId), (''traceId'', traceId)])) (\<lambda>_.
             console_log ''Logged 50 tokens for agent (resume)'' [agentId])
        else io_return ()) (\<lambda>_.
     io_bind (Date_now e) (\<lambda>t1.
     io_bind (traceSpan_create e None traceId (Some rootSpanId) ''orchestrator''
                ''resume_agent'' (Some (t1 - rootStart)) (JObj [(''taskId'', taskId)])) (\<lambda>_.
     io_bind (Date_now e) (\<lambda>t2.
     io_bind (traceSpan_update e rootSpanId None (t2 - rootStart)) (\<lambda>_.
     io_bind (message_ack m) (\<lambda>_.
     console_log ''Message acknowledged'' [JStr (msg_id m)])))))))))"

text \<open>The string a template literal \<^verbatim>\<open>${v}\<close> splices in.\<close>

definition template :: "env \<Rightarrow> js \<Rightarrow> string" where
  "template e v = (case v of JStr s \<Rightarrow> s | _ \<Rightarrow> js_toString e v)"

text \<open>Lines 119 to 154: an agent matched; open the task and account for the tool call.\<close>

definition create_task :: "env \<Rightarrow> string \<Rightarrow> js \<Rightarrow> js \<Rightarrow> js \<Rightarrow> agent \<Rightarrow> unit io" where
  "create_task e rootSpanId data traceId source a =
     io_bind (console_log ''Found Agent'' [JStr (agent_name a), JStr (agent_id a)]) (\<lambda>_.
     io_bind (Date_now e) (\<lambda>taskCreateStart.
     io_bind (io_of (js_get data ''payload'')) (\<lambda>payload.
     io_bind (task_create e
                (''Signal from '' @ template e source @ '': '' @
                   JSON_stringify e (js_nullish payload data))
                data (agent_id a)) (\<lambda>task.
     io_bind (console_log ''Created Task - Waiting for Approval'' [JStr (task_id task)]) (\<lambda>_.
     io_bind (Date_now e) (\<lambda>t.
     io_bind (traceSpan_create e None traceId (Some rootSpanId) ''orchestrator''
                ''task_create'' (Some (t - taskCreateStart))
                (JObj [(''taskId'', JStr (task_id task)),
                       (''agentName'', JStr (agent_name a))])) (\<lambda>_.
     io_bind (usageLog_create e (JStr (agent_id a)) ''tool_call'' 120 (12 / 10000)
                (JObj [(''taskId'', JStr (task_id task)), (''source'', source),
                       (''traceId'', traceId)])) (\<lambda>_.
     console_log ''Logged 120 tokens for agent (tool_call)'' [JStr (agent_name a)]))))))))"

text \<open>\<^verbatim>\<open>data.source || 'unknown'\<close> (the worker, line 101; the gateway, line 247).\<close>

definition source_of :: "js \<Rightarrow> exn + js" where
  "source_of data =
     (case js_get data ''source'' of Inl x \<Rightarrow> Inl x | Inr s \<Rightarrow> Inr (js_or s (JStr ''unknown'')))"

text \<open>Lines 100 to 167: any other signal.\<close>

definition handle_signal :: "env \<Rightarrow> message \<Rightarrow> int \<Rightarrow> string \<Rightarrow> js \<Rightarrow> js \<Rightarrow> unit io" where
  "handle_signal e m rootStart rootSpanId data traceId =
     io_bind (Date_now e) (\<lambda>agentLookupStart.
     io_bind (io_of (source_of data)) (\<lambda>source.
     io_bind (agent_findFirst e source) (\<lambda>found.
     io_bind (Date_now e) (\<lambda>t1.
     io_bind (traceSpan_create e None traceId (Some rootSpanId) ''orchestrator''
                ''agent_lookup'' (Some (t1 - agentLookupStart))
                (JObj [(''source'', source), (''found'', JBool (found \<noteq> None))])) (\<lambda>_.
     io_bind
       (case found of
          Some a \<Rightarrow> create_task e rootSpanId data traceId source a
        | None \<Rightarrow> console_log ''No agent found for source'' [source]) (\<lambda>_.
     io_bind (Date_now e) (\<lambda>t2.
     io_bind (traceSpan_update e rootSpanId None (t2 - rootStart)) (\<lambda>_.
     io_bind (message_ack m) (\<lambda>_.
     console_log ''Message acknowledged'' [JStr (msg_id m)])))))))))"

text \<open>Lines 48 to 167: the \<^verbatim>\<open>try\<close> block once the trace id is known.\<close>

definition process_message :: "env \<Rightarrow> message \<Rightarrow> int \<Rightarrow> string \<Rightarrow> js \<Rightarrow> js \<Rightarrow> unit io" where
  "process_message e m rootStart rootSpanId data traceId =
     io_bind (traceSpan_create e (Some rootSpanId) traceId None ''orchestrator''
                ''process_message'' None (JObj [(''messageId'', JStr (msg_id m))])) (\<lambda>_.
     io_bind (io_of (js_get data ''type'')) (\<lambda>ty.
     if ty = JStr ''RESUME'' then handle_resume e m rootStart rootSpanId data traceId
     else handle_signal e m rootStart rootSpanId data traceId))"

text \<open>Lines 168 to 180: the \<^verbatim>\<open>catch\<close> block.\<close>

definition handleMessage_catch :: "env \<Rightarrow> message \<Rightarrow> int \<Rightarrow> string \<Rightarrow> js \<Rightarrow> exn \<Rightarrow> unit io" where
  "handleMessage_catch e m rootStart rootSpanId traceId err =
     io_bind (console_error ''Error processing message'' [JStr (msg_id m)] err) (\<lambda>_.
     io_bind
       (if truthy traceId
        then swallow (io_bind (Date_now e) (\<lambda>t.
               traceSpan_update e rootSpanId (Some ''ERROR'') (t - rootStart)))
        else io_return ()) (\<lambda>_.
     message_ack m))"

text \<open>
  Lines 25 to 181: the handler.  The \<^verbatim>\<open>try\<close> block is \<open>open_trace\<close> followed by
  \<open>process_message\<close>; the \<^verbatim>\<open>catch\<close> block gets the value the local \<^verbatim>\<open>traceId\<close> has
  when the exception is thrown.
\<close>

definition handleMessage :: "env \<Rightarrow> message \<Rightarrow> unit io" where
  "handleMessage e m =
     io_bind (Date_now e) (\<lambda>rootStart.
     io_bind (randomUUID e) (\<lambda>rootSpanId w.
       case open_trace e m w of
         (Inl err, w1) \<Rightarrow> handleMessage_catch e m rootStart rootSpanId (JStr []) err w1
       | (Inr (data, traceId), w1) \<Rightarrow>
           try_catch (process_message e m rootStart rootSpanId data traceId)
             (handleMessage_catch e m rootStart rootSpanId traceId) w1))"

section \<open>The ingress gateway: \<^verbatim>\<open>POST /webhook\<close>\<close>

text \<open>Lines 242, 278 and 309: the three increments of \<^verbatim>\<open>auditCounters\<close>.\<close>

definition bump_received :: "unit io" where
  "bump_received w =
     (Inr (), w\<lparr>auditCounters :=
                  (auditCounters w)\<lparr>totalReceived := Suc (totalReceived (auditCounters w))\<rparr>\<rparr>)"

definition bump_published :: "unit io" where
  "bump_published w =
     (Inr (), w\<lparr>auditCounters :=
                  (auditCounters w)\<lparr>totalPublished := Suc (totalPublished (auditCounters w))\<rparr>\<rparr>)"

definition bump_failed :: "unit io" where
  "bump_failed w =
     (Inr (), w\<lparr>auditCounters :=
                  (auditCounters w)\<lparr>totalFailed := Suc (totalFailed (auditCounters w))\<rparr>\<rparr>)"

text \<open>Lines 262 to 268: the message handed to the topic.\<close>

definition build_message :: "js \<Rightarrow> js \<Rightarrow> string \<Rightarrow> string \<Rightarrow> js" where
  "build_message source payload traceId receivedAt =
     JObj [(''source'', source), (''payload'', payload), (''traceId'', JStr traceId),
           (''receivedAt'', JStr receivedAt)]"

text \<open>Lines 273 to 307: the \<^verbatim>\<open>try\<close> block.\<close>

definition webhook_publish :: "env \<Rightarrow> int \<Rightarrow> string \<Rightarrow> string \<Rightarrow> js \<Rightarrow> string \<Rightarrow> reply io" where
  "webhook_publish e rootStart traceId rootSpanId source dataBuffer =
     io_bind (Date_now e) (\<lambda>pubsubStart.
     io_bind (publishMessage e dataBuffer [(''traceId'', traceId)]) (\<lambda>messageId.
     io_bind bump_published (\<lambda>_.
     io_bind (Date_now e) (\<lambda>t1.
     io_bind (traceSpan_create e None (JStr traceId) (Some rootSpanId) ''ingress''
                ''pubsub_publish'' (Some (t1 - pubsubStart))
                (JObj [(''messageId'', JStr messageId), (''topic'', JStr (TOPIC_NAME e))])) (\<lambda>_.
     io_bind (Date_now e) (\<lambda>t2.
     io_bind (traceSpan_update e rootSpanId None (t2 - rootStart)) (\<lambda>_.
     io_bind (console_log ''Published to Pub/Sub'' [JStr messageId, source, JStr traceId]) (\<lambda>_.
     io_return \<lparr>reply_status = 200,
                reply_body = JObj [(''status'', JStr ''queued''), (''messageId'', JStr messageId),
                                   (''traceId'', JStr traceId)]\<rparr>))))))))"

text \<open>Lines 308 to 319: the \<^verbatim>\<open>catch\<close> block.\<close>

definition webhook_catch :: "env \<Rightarrow> int \<Rightarrow> string \<Rightarrow> js \<Rightarrow> exn \<Rightarrow> reply io" where
  "webhook_catch e rootStart rootSpanId source err =
     io_bind bump_failed (\<lambda>_.
     io_bind (swallow (io_bind (Date_now e) (\<lambda>t.
                traceSpan_update e rootSpanId (Some ''ERROR'') (t - rootStart)))) (\<lambda>_.
     io_bind (console_error ''Failed to publish to Pub/Sub'' [source] err) (\<lambda>_.
     io_return \<lparr>reply_status = 500,
                reply_body = JObj [(''error'', JStr ''Failed to queue message'')]\<rparr>)))"

text \<open>Line 248: \<^verbatim>\<open>body.payload || body\<close>.\<close>

definition payload_of :: "js \<Rightarrow> exn + js" where
  "payload_of body =
     (case js_get body ''payload'' of Inl x \<Rightarrow> Inl x | Inr p \<Rightarrow> Inr (js_or p body))"

text \<open>
  Lines 232 to 320.  The body is what the framework parsed from the request
  (\<^verbatim>\<open>undefined\<close> when there is none).  An exception that leaves the handler (the root span's
  write is outside the \<^verbatim>\<open>try\<close>) is the framework's to answer.
\<close>

definition webhook :: "env \<Rightarrow> js \<Rightarrow> reply io" where
  "webhook e body =
     io_bind (Date_now e) (\<lambda>rootStart.
     if \<not> truthy body \<or> typeof body \<noteq> ''object''
     then io_return \<lparr>reply_status = 400,
                     reply_body = JObj [(''error'', JStr ''Request body must be a JSON object'')]\<rparr>
     else
       io_bind bump_received (\<lambda>_.
       io_bind (randomUUID e) (\<lambda>traceId.
       io_bind (io_of (source_of body)) (\<lambda>source.
       io_bind (io_of (payload_of body)) (\<lambda>payload.
       io_bind (randomUUID e) (\<lambda>rootSpanId.
       io_bind (traceSpan_create e (Some rootSpanId) (JStr traceId) None ''ingress''
                  ''webhook_receive'' None (JObj [(''source'', source)])) (\<lambda>_.
       io_bind (Date_now e) (\<lambda>receivedAt.
       try_catch
         (webhook_publish e rootStart traceId rootSpanId source
            (JSON_stringify e
               (build_message source payload traceId (toISOString e receivedAt))))
         (webhook_catch e rootStart rootSpanId source)))))))))"

section \<open>Vocabulary of the proofs\<close>

text \<open>
  The weakest precondition of a computation: \<open>Q\<close> holds of the value and the world it
  returns, \<open>E\<close> of the exception and the world it throws in.
\<close>

definition wp :: "'a io \<Rightarrow> ('a \<Rightarrow> world \<Rightarrow> bool) \<Rightarrow> (exn \<Rightarrow> world \<Rightarrow> bool) \<Rightarrow> world \<Rightarrow> bool" where
  "wp f Q E w = (case f w of (Inr a, w') \<Rightarrow> Q a w' | (Inl x, w') \<Rightarrow> E x w')"

text \<open>Nothing but the console and the count of interactions differs between two worlds.\<close>

definition quiet :: "world \<Rightarrow> world \<Rightarrow> bool" where
  "quiet w w' \<longleftrightarrow>
     agents w' = agents w \<and> tasks w' = tasks w \<and> usageLogs w' = usageLogs w \<and>
     traceSpans w' = traceSpans w \<and> topic w' = topic w \<and> settled w' = settled w \<and>
     auditCounters w' = auditCounters w \<and> now w' = now w"

text \<open>
  The span table in the order of creation is causal when every span that names a parent
  comes after a span with that id and the same trace id.
\<close>

fun parents_first :: "traceSpan list \<Rightarrow> traceSpan list \<Rightarrow> bool" where
  "parents_first seen [] = True"
| "parents_first seen (sp # rest) =
     ((case span_parentId sp of
         None \<Rightarrow> True
       | Some p \<Rightarrow> (\<exists>q \<in> set seen. span_id q = p \<and> span_traceId q = span_traceId sp)) \<and>
      parents_first (seen @ [sp]) rest)"

definition causal :: "traceSpan list \<Rightarrow> bool" where
  "causal sps = parents_first [] sps"

definition rooted :: "string \<Rightarrow> js \<Rightarrow> traceSpan list \<Rightarrow> bool" where
  "rooted rid tid sps \<longleftrightarrow> (\<exists>q \<in> set sps. span_id q = rid \<and> span_traceId q = tid)"

text \<open>The clock of an environment is steady when no reading is earlier than the one before.\<close>

definition steady :: "env \<Rightarrow> bool" where
  "steady e \<longleftrightarrow> (\<forall>n. 0 \<le> elapsed_at e n)"

text \<open>
  What one run of a handler does to the span table, for the root span id \<open>rid\<close> and the
  trace id \<open>tid\<close> of the run: it creates the root span, creates children of the root
  once the root is there, and closes the root with a duration, which is not negative when
  the clock is known to be steady (\<open>ok\<close>).
\<close>

inductive evolves :: "bool \<Rightarrow> string \<Rightarrow> js \<Rightarrow> traceSpan list \<Rightarrow> traceSpan list \<Rightarrow> bool"
  for ok :: bool and rid :: string and tid :: js and sps :: "traceSpan list"
where
  ev_refl: "evolves ok rid tid sps sps"
| ev_root: "evolves ok rid tid sps sps1 \<Longrightarrow> span_id sp = rid \<Longrightarrow> span_traceId sp = tid \<Longrightarrow>
     span_parentId sp = None \<Longrightarrow> span_status sp = ''OK'' \<Longrightarrow> evolves ok rid tid sps (sps1 @ [sp])"
| ev_child: "evolves ok rid tid sps sps1 \<Longrightarrow> rooted rid tid sps1 \<Longrightarrow> span_parentId sp = Some rid \<Longrightarrow>
     span_traceId sp = tid \<Longrightarrow> span_status sp = ''OK'' \<Longrightarrow> evolves ok rid tid sps (sps1 @ [sp])"
| ev_close: "evolves ok rid tid sps sps1 \<Longrightarrow> (ok \<longrightarrow> 0 \<le> d) \<Longrightarrow>
     evolves ok rid tid sps (map (close_span rid st d) sps1)"

definition tracing :: "env \<Rightarrow> int \<Rightarrow> string \<Rightarrow> js \<Rightarrow> traceSpan list \<Rightarrow> world \<Rightarrow> bool" where
  "tracing e rootStart rid tid sps w \<longleftrightarrow>
     (steady e \<longrightarrow> rootStart \<le> now w) \<and> evolves (steady e) rid tid sps (traceSpans w)"

text \<open>
  The rows a matched signal adds, as relations between the tables before and after: one
  task for the agent, and one usage log of the fixed cost of a tool call.
\<close>

definition opened ::
  "js \<Rightarrow> js \<Rightarrow> js \<Rightarrow> agent \<Rightarrow> task list \<Rightarrow> usageLog list \<Rightarrow> task list \<Rightarrow> usageLog list \<Rightarrow> bool"
  where
  "opened data src tid a ts us ts' us' \<longleftrightarrow>
     (\<exists>t u. ts' = ts @ [t] \<and> task_id t \<notin> task_id ` set ts \<and>
        task_agentId t = agent_id a \<and> task_inputPayload t = data \<and>
        us' = us @ [u] \<and> log_agentId u = JStr (agent_id a) \<and>
        log_action u = ''tool_call'' \<and> log_tokens u = 120 \<and> log_costUsd u = 12 / 10000 \<and>
        log_metadata u =
          JObj [(''taskId'', JStr (task_id t)), (''source'', src), (''traceId'', tid)])"

definition routed ::
  "js \<Rightarrow> js \<Rightarrow> agent list \<Rightarrow> task list \<Rightarrow> usageLog list \<Rightarrow> task list \<Rightarrow> usageLog list \<Rightarrow> bool"
  where
  "routed data tid ags ts us ts' us' \<longleftrightarrow>
     (\<exists>src. source_of data = Inr src \<and>
        (case find (\<lambda>a. JStr (agent_role a) = src) ags of
           Some a \<Rightarrow> opened data src tid a ts us ts' us'
         | None \<Rightarrow> ts' = ts \<and> us' = us))"

text \<open>What a resume signal does to the usage logs when it is processed to the end.\<close>

definition resumed :: "js \<Rightarrow> js \<Rightarrow> usageLog list \<Rightarrow> usageLog list \<Rightarrow> bool" where
  "resumed data tid us us' \<longleftrightarrow>
     (\<exists>agentId taskId. js_get data ''agentId'' = Inr agentId \<and>
        js_get data ''taskId'' = Inr taskId \<and>
        (if truthy agentId
         then \<exists>u. us' = us @ [u] \<and> log_agentId u = agentId \<and> log_action u = ''resume'' \<and>
                log_tokens u = 50 \<and> log_costUsd u = 5 / 10000 \<and>
                log_metadata u = JObj [(''taskId'', taskId), (''traceId'', tid)]
         else us' = us))"

text \<open>
  The gateway's success reply (lines 303 to 307) and the message it hands to the topic
  (lines 262 to 277), as values.
\<close>

definition queued_reply :: "string \<Rightarrow> string \<Rightarrow> reply" where
  "queued_reply messageId traceId =
     \<lparr>reply_status = 200,
      reply_body = JObj [(''status'', JStr ''queued''), (''messageId'', JStr messageId),
                         (''traceId'', JStr traceId)]\<rparr>"

definition outgoing :: "string \<Rightarrow> string \<Rightarrow> string \<Rightarrow> published" where
  "outgoing dat traceId messageId =
     \<lparr>pub_messageId = messageId, pub_data = dat, pub_attributes = [(''traceId'', traceId)]\<rparr>"

text \<open>The audit counters before and after one request, by how many each has grown.\<close>

definition counted :: "nat \<Rightarrow> nat \<Rightarrow> nat \<Rightarrow> world \<Rightarrow> world \<Rightarrow> bool" where
  "counted r p f w w' \<longleftrightarrow>
     totalReceived (auditCounters w') = totalReceived (auditCounters w) + r \<and>
     totalPublished (auditCounters w') = totalPublished (auditCounters w) + p \<and>
     totalFailed (auditCounters w') = totalFailed (auditCounters w) + f"

section \<open>Concrete runs\<close>

text \<open>
  The seeded agent, a signal as the gateway publishes it, a resume signal, a resume
  signal whose agent id is the empty string, a world with that agent and empty tables, and
  three environments: one in which the store and the topic accept everything, one in which
  the store rejects every operation, and one that parses the resume signal with the empty
  agent id.
\<close>

definition github_keeper :: agent where
  "github_keeper =
     \<lparr>agent_id = ''agent-1'', agent_name = ''GitHub Keeper'', agent_role = ''github'',
      agent_goal = ''Monitor the code repository for new changes.'',
      agent_systemPrompt = ''You are an AI specialized in code review.''\<rparr>"

definition github_signal :: js where
  "github_signal =
     JObj [(''source'', JStr ''github''), (''payload'', JObj [(''msg'', JStr ''commit X'')]),
           (''traceId'', JStr ''trace-1''), (''receivedAt'', JStr ''2026-01-01T00:00:00.000Z'')]"

definition resume_signal :: js where
  "resume_signal =
     JObj [(''type'', JStr ''RESUME''), (''taskId'', JStr ''task-1''),
           (''agentId'', JStr ''agent-1'')]"

definition blank_resume_signal :: js where
  "blank_resume_signal =
     JObj [(''type'', JStr ''RESUME''), (''taskId'', JStr ''task-1''), (''agentId'', JStr [])]"

definition env_up :: env where
  "env_up =
     \<lparr>JSON_parse = (\<lambda>s. if s = ''resume'' then Some resume_signal
                         else if s = ''signal'' then Some github_signal else None),
      JSON_stringify = (\<lambda>v. ''{}''), js_toString = (\<lambda>v. ''?''),
      toISOString = (\<lambda>t. ''2026-01-01T00:00:00.000Z''), TOPIC_NAME = ''egap-events'',
      uuid_at = (\<lambda>n. replicate (Suc n) CHR ''u''), elapsed_at = (\<lambda>n. 1),
      store_rejects = (\<lambda>n. False), publish_at = (\<lambda>n. Some ''pubsub-1'')\<rparr>"

definition env_down :: env where
  "env_down = env_up\<lparr>store_rejects := (\<lambda>n. True)\<rparr>"

definition env_blank :: env where
  "env_blank =
     env_up\<lparr>JSON_parse := (\<lambda>s. if s = ''resume'' then Some blank_resume_signal else None)\<rparr>"

definition delivery :: "string \<Rightarrow> message" where
  "delivery s =
     \<lparr>msg_id = ''delivery-1'', msg_data = s, msg_attributes = [(''traceId'', ''trace-1'')]\<rparr>"

definition world0 :: world where
  "world0 =
     \<lparr>agents = [github_keeper], tasks = [], usageLogs = [], traceSpans = [], topic = [],
      settled = [],
      auditCounters =
        \<lparr>totalReceived = 0, totalPublished = 0, totalFailed = 0, startedAt = ''boot''\<rparr>,
      console = [], now = 0, tick = 0\<rparr>"

text \<open>
  A rendering of values as JSON text for the environments of the runs below: good for
  strings without characters to escape and for whole numbers, which is all these runs hold.
\<close>

fun digits :: "nat \<Rightarrow> string" where
  "digits n =
     (if n < 10 then [char_of (48 + n)] else digits (n div 10) @ [char_of (48 + n mod 10)])"

fun commas :: "string list \<Rightarrow> string" where
  "commas [] = []"
| "commas [x] = x"
| "commas (x # y # zs) = x @ '','' @ commas (y # zs)"

fun render :: "js \<Rightarrow> string" where
  "render JUndefined = ''undefined''"
| "render JNull = ''null''"
| "render (JBool b) = (if b then ''true'' else ''false'')"
| "render (JNum r) =
     (case quotient_of r of
        (p, q) \<Rightarrow> (if p < 0 then ''-'' else []) @ digits (nat \<bar>p\<bar>) @
                    (if q = 1 then [] else ''/'' @ digits (nat q)))"
| "render (JStr s) = CHR 0x22 # s @ [CHR 0x22]"
| "render (JArr xs) =
     ''['' @ commas (map (\<lambda>x. if x = JUndefined then ''null'' else render x) xs) @ '']''"
| "render (JObj kvs) =
     ''{'' @ commas (map (\<lambda>(k, v). CHR 0x22 # k @ [CHR 0x22] @ '':'' @ render v)
                     (filter (\<lambda>(k, v). v \<noteq> JUndefined) kvs)) @ ''}''"

text \<open>
  An environment like \<open>env_up\<close> that prints with \<open>render\<close> and in which the store
  rejects exactly the operation at interaction \<open>k\<close>; request bodies.
\<close>

definition env_rejecting :: "nat \<Rightarrow> env" where
  "env_rejecting k = env_up\<lparr>JSON_stringify := render, store_rejects := (\<lambda>n. n = k)\<rparr>"

definition github_body :: js where
  "github_body =
     JObj [(''source'', JStr ''github''), (''payload'', JObj [(''msg'', JStr ''commit X'')])]"

definition numbered_body :: js where
  "numbered_body = JObj [(''source'', JNum 5)]"

text \<open>
  Environments for the error paths: the topic refuses every publish; the store rejects
  the worker's agent lookup and the clock is set back ten milliseconds just before the
  \<^verbatim>\<open>catch\<close> block reads it; the same for the gateway when the topic refuses the publish.
\<close>

definition env_topic_down :: env where
  "env_topic_down = env_up\<lparr>publish_at := (\<lambda>n. None)\<rparr>"

definition env_clock_back :: env where
  "env_clock_back = (env_rejecting 4)\<lparr>elapsed_at := (\<lambda>n. if n = 5 then - 10 else 1)\<rparr>"

definition env_topic_down_clock_back :: env where
  "env_topic_down_clock_back = env_topic_down\<lparr>elapsed_at := (\<lambda>n. if n = 7 then - 10 else 1)\<rparr>"

text \<open>
  The message the gateway queues for the request \<open>github_body\<close> when the identifiers are
  those of \<open>env_up\<close>, and a worker's environment that parses its text.
\<close>

definition queued_signal :: js where
  "queued_signal =
     JObj [(''source'', JStr ''github''), (''payload'', JObj [(''msg'', JStr ''commit X'')]),
           (''traceId'', JStr ''uu''), (''receivedAt'', JStr ''2026-01-01T00:00:00.000Z'')]"

definition env_worker :: env where
  "env_worker =
     env_up\<lparr>JSON_parse := (\<lambda>s. if s = render queued_signal then Some queued_signal else None)\<rparr>"

section \<open>Rules of the weakest precondition\<close>

lemma wp_return: "wp (io_return a) Q E w = Q a w"
  by (simp add: wp_def io_return_def)

lemma wp_throw: "wp (io_throw x) Q E w = E x w"
  by (simp add: wp_def io_throw_def)

lemma wp_of: "wp (io_of r) Q E w = ((\<forall>x. r = Inl x \<longrightarrow> E x w) \<and> (\<forall>a. r = Inr a \<longrightarrow> Q a w))"
  by (simp add: wp_def io_of_def split: sum.splits)

lemma wp_bind: "wp (io_bind f g) Q E = wp f (\<lambda>a. wp (g a) Q E) E"
  by (rule ext) (simp add: wp_def io_bind_def split: sum.splits prod.splits)

lemma wp_try: "wp (try_catch f h) Q E = wp f Q (\<lambda>x. wp (h x) Q E)"
  by (rule ext) (simp add: wp_def try_catch_def split: sum.splits prod.splits)

lemma wp_swallow: "wp (swallow f) Q E = wp f (\<lambda>_. Q ()) (\<lambda>_. Q ())"
  by (rule ext) (simp add: wp_def swallow_def split: sum.splits prod.splits)

lemma wp_if: "wp (if c then f else g) Q E w = ((c \<longrightarrow> wp f Q E w) \<and> (\<not> c \<longrightarrow> wp g Q E w))"
  by simp

lemma wp_case_option:
  "wp (case x of None \<Rightarrow> f | Some a \<Rightarrow> g a) Q E w =
     ((x = None \<longrightarrow> wp f Q E w) \<and> (\<forall>a. x = Some a \<longrightarrow> wp (g a) Q E w))"
  by (simp split: option.splits)

lemma wp_cons:
  assumes "wp f Q' E' w"
    and "\<And>a w'. Q' a w' \<Longrightarrow> Q a w'"
    and "\<And>x w'. E' x w' \<Longrightarrow> E x w'"
  shows "wp f Q E w"
  using assms by (auto simp: wp_def split: sum.splits prod.splits)

lemma wp_fst_snd: "wp f Q E w = (case fst (f w) of Inr a \<Rightarrow> Q a (snd (f w)) | Inl x \<Rightarrow> E x (snd (f w)))"
  by (simp add: wp_def split: sum.splits prod.splits)

lemma wp_Date_now:
  "wp (Date_now e) Q E w =
     Q (now w + elapsed_at e (tick w))
       (w\<lparr>now := now w + elapsed_at e (tick w), tick := Suc (tick w)\<rparr>)"
  by (simp add: wp_def Date_now_def Let_def)

lemma wp_randomUUID:
  "wp (randomUUID e) Q E w = Q (uuid_at e (tick w)) (w\<lparr>tick := Suc (tick w)\<rparr>)"
  by (simp add: wp_def randomUUID_def)

lemma wp_console_log:
  "wp (console_log t a) Q E w = Q () (w\<lparr>console := console w @ [Log t a]\<rparr>)"
  by (simp add: wp_def console_log_def)

lemma wp_console_error:
  "wp (console_error t a x) Q E w = Q () (w\<lparr>console := console w @ [LogError t a x]\<rparr>)"
  by (simp add: wp_def console_error_def)

lemma wp_message_ack:
  "wp (message_ack m) Q E w = Q () (w\<lparr>settled := settled w @ [Ack (msg_id m)]\<rparr>)"
  by (simp add: wp_def message_ack_def)

lemma wp_traceSpan_create:
  "wp (traceSpan_create e ido traceId parentId service operation duration metadata) Q E w =
     ((store_rejects e (tick w) \<or>
       (case ido of Some i \<Rightarrow> i | None \<Rightarrow> uuid_at e (tick w)) \<in> span_id ` set (traceSpans w)
         \<longrightarrow> E PrismaError (w\<lparr>tick := Suc (tick w)\<rparr>)) \<and>
      (\<not> (store_rejects e (tick w) \<or>
          (case ido of Some i \<Rightarrow> i | None \<Rightarrow> uuid_at e (tick w)) \<in> span_id ` set (traceSpans w))
         \<longrightarrow> Q \<lparr>span_id = (case ido of Some i \<Rightarrow> i | None \<Rightarrow> uuid_at e (tick w)),
                 span_traceId = traceId, span_parentId = parentId, span_service = service,
                 span_operation = operation, span_durationMs = duration, span_status = ''OK'',
                 span_metadata = metadata\<rparr>
               (w\<lparr>traceSpans := traceSpans w @
                    [\<lparr>span_id = (case ido of Some i \<Rightarrow> i | None \<Rightarrow> uuid_at e (tick w)),
                      span_traceId = traceId, span_parentId = parentId, span_service = service,
                      span_operation = operation, span_durationMs = duration,
                      span_status = ''OK'', span_metadata = metadata\<rparr>],
                  tick := Suc (tick w)\<rparr>)))"
  by (auto simp add: wp_def traceSpan_create_def Let_def)

lemma wp_traceSpan_update:
  "wp (traceSpan_update e i st d) Q E w =
     ((store_rejects e (tick w) \<or> i \<notin> span_id ` set (traceSpans w)
         \<longrightarrow> E PrismaError (w\<lparr>tick := Suc (tick w)\<rparr>)) \<and>
      (\<not> (store_rejects e (tick w) \<or> i \<notin> span_id ` set (traceSpans w))
         \<longrightarrow> Q () (w\<lparr>traceSpans := map (close_span i st d) (traceSpans w),
                      tick := Suc (tick w)\<rparr>)))"
  by (auto simp add: wp_def traceSpan_update_def)

lemma wp_agent_findFirst:
  "wp (agent_findFirst e role) Q E w =
     ((store_rejects e (tick w) \<longrightarrow> E PrismaError (w\<lparr>tick := Suc (tick w)\<rparr>)) \<and>
      (\<not> store_rejects e (tick w)
         \<longrightarrow> Q (find (\<lambda>a. JStr (agent_role a) = role) (agents w)) (w\<lparr>tick := Suc (tick w)\<rparr>)))"
  by (simp add: wp_def agent_findFirst_def)

lemma wp_task_create:
  "wp (task_create e description inputPayload agentId) Q E w =
     ((store_rejects e (tick w) \<or> uuid_at e (tick w) \<in> task_id ` set (tasks w)
         \<longrightarrow> E PrismaError (w\<lparr>tick := Suc (tick w)\<rparr>)) \<and>
      (\<not> (store_rejects e (tick w) \<or> uuid_at e (tick w) \<in> task_id ` set (tasks w))
         \<longrightarrow> Q \<lparr>task_id = uuid_at e (tick w), task_description = description,
                 task_inputPayload = inputPayload, task_agentId = agentId\<rparr>
               (w\<lparr>tasks := tasks w @
                    [\<lparr>task_id = uuid_at e (tick w), task_description = description,
                      task_inputPayload = inputPayload, task_agentId = agentId\<rparr>],
                  tick := Suc (tick w)\<rparr>)))"
  by (auto simp add: wp_def task_create_def Let_def)

lemma wp_usageLog_create:
  "wp (usageLog_create e agentId action tokens costUsd metadata) Q E w =
     ((store_rejects e (tick w) \<or> uuid_at e (tick w) \<in> log_id ` set (usageLogs w)
         \<longrightarrow> E PrismaError (w\<lparr>tick := Suc (tick w)\<rparr>)) \<and>
      (\<not> (store_rejects e (tick w) \<or> uuid_at e (tick w) \<in> log_id ` set (usageLogs w))
         \<longrightarrow> Q \<lparr>log_id = uuid_at e (tick w), log_agentId = agentId, log_action = action,
                 log_tokens = tokens, log_costUsd = costUsd, log_metadata = metadata\<rparr>
               (w\<lparr>usageLogs := usageLogs w @
                    [\<lparr>log_id = uuid_at e (tick w), log_agentId = agentId, log_action = action,
                      log_tokens = tokens, log_costUsd = costUsd, log_metadata = metadata\<rparr>],
                  tick := Suc (tick w)\<rparr>)))"
  by (auto simp add: wp_def usageLog_create_def Let_def)

lemma wp_publishMessage:
  "wp (publishMessage e dat attrs) Q E w =
     ((publish_at e (tick w) = None \<longrightarrow> E PublishError (w\<lparr>tick := Suc (tick w)\<rparr>)) \<and>
      (\<forall>mid. publish_at e (tick w) = Some mid
         \<longrightarrow> Q mid (w\<lparr>topic := topic w @
                        [\<lparr>pub_messageId = mid, pub_data = dat, pub_attributes = attrs\<rparr>],
                      tick := Suc (tick w)\<rparr>)))"
  by (simp add: wp_def publishMessage_def split: option.splits)

lemma wp_bump_received:
  "wp bump_received Q E w =
     Q () (w\<lparr>auditCounters :=
              (auditCounters w)\<lparr>totalReceived := Suc (totalReceived (auditCounters w))\<rparr>\<rparr>)"
  by (simp add: wp_def bump_received_def)

lemma wp_bump_published:
  "wp bump_published Q E w =
     Q () (w\<lparr>auditCounters :=
              (auditCounters w)\<lparr>totalPublished := Suc (totalPublished (auditCounters w))\<rparr>\<rparr>)"
  by (simp add: wp_def bump_published_def)

lemma wp_bump_failed:
  "wp bump_failed Q E w =
     Q () (w\<lparr>auditCounters :=
              (auditCounters w)\<lparr>totalFailed := Suc (totalFailed (auditCounters w))\<rparr>\<rparr>)"
  by (simp add: wp_def bump_failed_def)

lemmas wp_rules = wp_return wp_throw wp_of wp_bind wp_try wp_swallow wp_if wp_case_option
  wp_Date_now wp_randomUUID wp_console_log wp_console_error wp_message_ack
  wp_traceSpan_create wp_traceSpan_update wp_agent_findFirst wp_task_create
  wp_usageLog_create wp_publishMessage wp_bump_received wp_bump_published wp_bump_failed

text \<open>
  The worker's handler: the \<^verbatim>\<open>catch\<close> block runs with the empty trace id when the
  exception leaves the first part of the \<^verbatim>\<open>try\<close> block, and with the resolved one
  afterwards.
\<close>

lemma wp_handleMessage:
  "wp (handleMessage e m) Q E w =
     wp (Date_now e) (\<lambda>rootStart.
       wp (randomUUID e) (\<lambda>rootSpanId.
         wp (open_trace e m)
           (\<lambda>(data, traceId).
              wp (process_message e m rootStart rootSpanId data traceId) Q
                (\<lambda>x. wp (handleMessage_catch e m rootStart rootSpanId traceId x) Q E))
           (\<lambda>x. wp (handleMessage_catch e m rootStart rootSpanId (JStr []) x) Q E)) E) E w"
proof -
  have inner: "wp (\<lambda>w. case open_trace e m w of
        (Inl err, w1) \<Rightarrow> C (JStr []) err w1
      | (Inr (data, traceId), w1) \<Rightarrow> try_catch (P data traceId) (C traceId) w1) Q E =
    wp (open_trace e m)
      (\<lambda>(data, traceId). wp (P data traceId) Q (\<lambda>x. wp (C traceId x) Q E))
      (\<lambda>x. wp (C (JStr []) x) Q E)" for C P
    by (rule ext) (auto simp: wp_def try_catch_def split: sum.splits prod.splits)
  show ?thesis
    by (simp add: handleMessage_def wp_bind inner)
qed

section \<open>The worker acknowledges every delivery once\<close>

lemma open_trace_quiet: "wp (open_trace e m) (\<lambda>_. quiet w) (\<lambda>_. quiet w) w"
  by (simp add: open_trace_def parse_message_def resolve_traceId_def wp_rules quiet_def
      split: option.split)

lemma create_task_settled:
  "wp (create_task e rid data tid src a)
     (\<lambda>_ w'. settled w' = settled w \<and> agents w' = agents w)
     (\<lambda>_ w'. settled w' = settled w \<and> agents w' = agents w) w"
  by (simp add: create_task_def wp_rules)

lemma handle_resume_settled:
  "wp (handle_resume e m rs rid data tid)
     (\<lambda>_ w'. settled w' = settled w @ [Ack (msg_id m)] \<and> agents w' = agents w)
     (\<lambda>_ w'. settled w' = settled w \<and> agents w' = agents w) w"
  by (simp add: handle_resume_def wp_rules)

lemma handle_signal_settled:
  "wp (handle_signal e m rs rid data tid)
     (\<lambda>_ w'. settled w' = settled w @ [Ack (msg_id m)] \<and> agents w' = agents w)
     (\<lambda>_ w'. settled w' = settled w \<and> agents w' = agents w) w"
  by (auto simp add: handle_signal_def wp_rules intro!: wp_cons [OF create_task_settled])

lemma process_message_settled:
  "wp (process_message e m rs rid data tid)
     (\<lambda>_ w'. settled w' = settled w @ [Ack (msg_id m)] \<and> agents w' = agents w)
     (\<lambda>_ w'. settled w' = settled w \<and> agents w' = agents w) w"
  by (auto simp add: process_message_def wp_rules
      intro!: wp_cons [OF handle_signal_settled] wp_cons [OF handle_resume_settled])

text \<open>
  The \<^verbatim>\<open>catch\<close> block returns normally whatever the span update does; it logs the error,
  acknowledges, and touches neither tasks nor usage logs.
\<close>

lemma handleMessage_catch_effect:
  "wp (handleMessage_catch e m rs rid tid x)
     (\<lambda>_ w'. settled w' = settled w @ [Ack (msg_id m)] \<and>
        console w' = console w @ [LogError ''Error processing message'' [JStr (msg_id m)] x] \<and>
        agents w' = agents w \<and> tasks w' = tasks w \<and> usageLogs w' = usageLogs w \<and>
        topic w' = topic w \<and> auditCounters w' = auditCounters w)
     (\<lambda>_ _. False) w"
  by (simp add: handleMessage_catch_def wp_rules)

lemma handleMessage_settled:
  "wp (handleMessage e m)
     (\<lambda>_ w'. settled w' = settled w @ [Ack (msg_id m)] \<and> agents w' = agents w)
     (\<lambda>_ _. False) w"
  unfolding wp_handleMessage
  by (auto simp add: wp_rules quiet_def
      intro!: wp_cons [OF open_trace_quiet] wp_cons [OF process_message_settled]
        wp_cons [OF handleMessage_catch_effect])

text \<open>
  Claim C3.  For every delivered message, in every environment (the parse may fail, no
  agent may match, any store operation may throw), the handler returns normally and the
  acknowledgements sent to the subscription are those sent before followed by exactly one
  \<^verbatim>\<open>ack\<close> of this delivery: one \<^verbatim>\<open>ack()\<close>, no \<^verbatim>\<open>nack()\<close>.
\<close>

theorem handleMessage_acks_exactly_once:
  "fst (handleMessage e m w) = Inr () \<and>
   settled (snd (handleMessage e m w)) = settled w @ [Ack (msg_id m)]"
  using handleMessage_settled [of e m w]
  by (simp add: wp_fst_snd split: sum.splits)

section \<open>Signals routed to an agent\<close>

lemma create_task_opened:
  "wp (create_task e rid data tid src a)
     (\<lambda>_ w'. opened data src tid a (tasks w) (usageLogs w) (tasks w') (usageLogs w'))
     (\<lambda>_ _. True) w"
  by (simp add: create_task_def wp_rules opened_def)

lemma handle_signal_routed:
  "wp (handle_signal e m rs rid data tid)
     (\<lambda>_ w'. routed data tid (agents w) (tasks w) (usageLogs w) (tasks w') (usageLogs w'))
     (\<lambda>_ _. True) w"
  by (auto simp add: handle_signal_def wp_rules routed_def
      intro!: wp_cons [OF create_task_opened])

lemma process_message_routed:
  assumes "js_get data ''type'' \<noteq> Inr (JStr ''RESUME'')"
  shows "wp (process_message e m rs rid data tid)
     (\<lambda>_ w'. routed data tid (agents w) (tasks w) (usageLogs w) (tasks w') (usageLogs w'))
     (\<lambda>_ _. True) w"
  using assms
  by (auto simp add: process_message_def wp_rules
      intro!: wp_cons [OF handle_signal_routed])

lemma open_trace_parsed:
  "wp (open_trace e m)
     (\<lambda>(data, tid) w'. quiet w w' \<and> JSON_parse e (msg_data m) = Some data) (\<lambda>_. quiet w) w"
  by (simp add: open_trace_def parse_message_def resolve_traceId_def wp_rules quiet_def
      split: option.split)

lemma handleMessage_routed:
  assumes "JSON_parse e (msg_data m) = Some data"
    and "js_get data ''type'' \<noteq> Inr (JStr ''RESUME'')"
  shows "wp (handleMessage e m)
     (\<lambda>_ w'. last (console w') = Log ''Message acknowledged'' [JStr (msg_id m)] \<longrightarrow>
        (\<exists>tid. routed data tid (agents w) (tasks w) (usageLogs w) (tasks w') (usageLogs w')))
     (\<lambda>_ _. False) w"
  unfolding wp_handleMessage using assms
  by (auto simp add: wp_rules quiet_def
      intro!: wp_cons [OF open_trace_parsed] wp_cons [OF process_message_routed]
        wp_cons [OF handleMessage_catch_effect])


text \<open>The seeded signal is processed to the end where nothing is rejected.\<close>

lemma signal_completes:
  "last (console (snd (handleMessage env_up (delivery ''signal'') world0))) =
     Log ''Message acknowledged'' [JStr ''delivery-1'']"
  by code_simp



section \<open>Resume signals\<close>

lemma handleMessage_agents: "agents (snd (handleMessage e m w)) = agents w"
  using handleMessage_settled [of e m w] by (simp add: wp_fst_snd split: sum.splits)

lemma handle_resume_resumed:
  "wp (handle_resume e m rs rid data tid)
     (\<lambda>_ w'. resumed data tid (usageLogs w) (usageLogs w')) (\<lambda>_ _. True) w"
  by (simp add: handle_resume_def wp_rules resumed_def)

lemma process_message_resumed:
  assumes "js_get data ''type'' = Inr (JStr ''RESUME'')"
  shows "wp (process_message e m rs rid data tid)
     (\<lambda>_ w'. resumed data tid (usageLogs w) (usageLogs w')) (\<lambda>_ _. True) w"
  using assms
  by (auto simp add: process_message_def wp_rules intro!: wp_cons [OF handle_resume_resumed])

lemma handleMessage_resumed:
  assumes "JSON_parse e (msg_data m) = Some data"
    and "js_get data ''type'' = Inr (JStr ''RESUME'')"
  shows "wp (handleMessage e m)
     (\<lambda>_ w'. last (console w') = Log ''Message acknowledged'' [JStr (msg_id m)] \<longrightarrow>
        (\<exists>tid. resumed data tid (usageLogs w) (usageLogs w')))
     (\<lambda>_ _. False) w"
  unfolding wp_handleMessage using assms
  by (auto simp add: wp_rules quiet_def
      intro!: wp_cons [OF open_trace_parsed] wp_cons [OF process_message_resumed]
        wp_cons [OF handleMessage_catch_effect])

text \<open>
  The first part of the \<^verbatim>\<open>try\<close> block on data that has a \<^verbatim>\<open>traceId\<close> property to
  read: it returns the data and the resolved trace id, and has drawn a fresh identifier
  only when neither the attribute nor the field is truthy.
\<close>

lemma open_trace_exact:
  assumes "JSON_parse e (msg_data m) = Some data" and "js_get data ''traceId'' = Inr d"
  shows "wp (open_trace e m)
     (\<lambda>r w'. r = (data, if truthy (attr_traceId m) then attr_traceId m
                         else if truthy d then d else JStr (uuid_at e (tick w))) \<and>
        quiet w w' \<and>
        tick w' = (if truthy (attr_traceId m) \<or> truthy d then tick w else Suc (tick w)))
     (\<lambda>_ _. False) w"
  using assms
  by (simp add: open_trace_def parse_message_def resolve_traceId_def wp_rules quiet_def)

text \<open>
  The usage log of a resume signal is written right after the root span, and nothing that
  happens later takes it back.
\<close>

lemma handle_resume_billed:
  assumes "js_get data ''agentId'' = Inr agentId" and "js_get data ''taskId'' = Inr taskId"
  shows "wp (handle_resume e m rs rid data tid)
     (\<lambda>_ w'. tasks w' = tasks w \<and>
        usageLogs w' =
          (if truthy agentId \<and> \<not> store_rejects e (tick w) \<and>
              uuid_at e (tick w) \<notin> log_id ` set (usageLogs w)
           then usageLogs w @
                  [\<lparr>log_id = uuid_at e (tick w), log_agentId = agentId, log_action = ''resume'',
                    log_tokens = 50, log_costUsd = 5 / 10000,
                    log_metadata = JObj [(''taskId'', taskId), (''traceId'', tid)]\<rparr>]
           else usageLogs w))
     (\<lambda>_ w'. tasks w' = tasks w \<and>
        usageLogs w' =
          (if truthy agentId \<and> \<not> store_rejects e (tick w) \<and>
              uuid_at e (tick w) \<notin> log_id ` set (usageLogs w)
           then usageLogs w @
                  [\<lparr>log_id = uuid_at e (tick w), log_agentId = agentId, log_action = ''resume'',
                    log_tokens = 50, log_costUsd = 5 / 10000,
                    log_metadata = JObj [(''taskId'', taskId), (''traceId'', tid)]\<rparr>]
           else usageLogs w)) w"
  using assms by (simp add: handle_resume_def wp_rules)

lemma process_message_billed:
  fixes e rid data tid agentId taskId w
  defines "billed \<equiv> \<lambda>w'. tasks w' = tasks w \<and>
        usageLogs w' =
          (if truthy agentId \<and> \<not> store_rejects e (tick w) \<and>
              rid \<notin> span_id ` set (traceSpans w) \<and> \<not> store_rejects e (Suc (tick w)) \<and>
              uuid_at e (Suc (tick w)) \<notin> log_id ` set (usageLogs w)
           then usageLogs w @
                  [\<lparr>log_id = uuid_at e (Suc (tick w)), log_agentId = agentId,
                    log_action = ''resume'', log_tokens = 50, log_costUsd = 5 / 10000,
                    log_metadata = JObj [(''taskId'', taskId), (''traceId'', tid)]\<rparr>]
           else usageLogs w)"
  assumes "js_get data ''type'' = Inr (JStr ''RESUME'')"
    and "js_get data ''agentId'' = Inr agentId" and "js_get data ''taskId'' = Inr taskId"
  shows "wp (process_message e m rs rid data tid) (\<lambda>_. billed) (\<lambda>_. billed) w"
  using assms(2) unfolding billed_def
  by (auto simp add: process_message_def wp_rules
      intro!: wp_cons [OF handle_resume_billed [OF assms(3,4)]])

lemma handleMessage_billed:
  fixes e m data d agentId taskId w
  defines "tid \<equiv> if truthy (attr_traceId m) then attr_traceId m
                 else if truthy d then d else JStr (uuid_at e (Suc (Suc (tick w))))"
    and "k \<equiv> if truthy (attr_traceId m) \<or> truthy d then Suc (Suc (tick w))
               else Suc (Suc (Suc (tick w)))"
  assumes "JSON_parse e (msg_data m) = Some data"
    and "js_get data ''type'' = Inr (JStr ''RESUME'')"
    and "js_get data ''traceId'' = Inr d"
    and "js_get data ''agentId'' = Inr agentId" and "js_get data ''taskId'' = Inr taskId"
  shows "wp (handleMessage e m)
     (\<lambda>_ w'. tasks w' = tasks w \<and>
        usageLogs w' =
          (if truthy agentId \<and> \<not> store_rejects e k \<and>
              uuid_at e (Suc (tick w)) \<notin> span_id ` set (traceSpans w) \<and>
              \<not> store_rejects e (Suc k) \<and> uuid_at e (Suc k) \<notin> log_id ` set (usageLogs w)
           then usageLogs w @
                  [\<lparr>log_id = uuid_at e (Suc k), log_agentId = agentId, log_action = ''resume'',
                    log_tokens = 50, log_costUsd = 5 / 10000,
                    log_metadata = JObj [(''taskId'', taskId), (''traceId'', tid)]\<rparr>]
           else usageLogs w))
     (\<lambda>_ _. False) w"
proof -
  let ?w0 = "w\<lparr>now := now w + elapsed_at e (tick w), tick := Suc (Suc (tick w))\<rparr>"
  let ?Q = "\<lambda>(_::unit) w'. tasks w' = tasks w \<and>
        usageLogs w' =
          (if truthy agentId \<and> \<not> store_rejects e k \<and>
              uuid_at e (Suc (tick w)) \<notin> span_id ` set (traceSpans w) \<and>
              \<not> store_rejects e (Suc k) \<and> uuid_at e (Suc k) \<notin> log_id ` set (usageLogs w)
           then usageLogs w @
                  [\<lparr>log_id = uuid_at e (Suc k), log_agentId = agentId, log_action = ''resume'',
                    log_tokens = 50, log_costUsd = 5 / 10000,
                    log_metadata = JObj [(''taskId'', taskId), (''traceId'', tid)]\<rparr>]
           else usageLogs w)"
  have "wp (open_trace e m)
      (\<lambda>(data, traceId).
         wp (process_message e m rs rid data traceId) ?Q
           (\<lambda>x. wp (handleMessage_catch e m rs rid traceId x) ?Q (\<lambda>_ _. False)))
      (\<lambda>x. wp (handleMessage_catch e m rs rid (JStr []) x) ?Q (\<lambda>_ _. False)) ?w0"
    if rid: "rid = uuid_at e (Suc (tick w))" for rs rid
  proof (rule wp_cons [OF open_trace_exact [OF assms(3,5), of ?w0]], goal_cases)
    case (1 r w1)
    then have r: "r = (data, tid)" and q: "quiet ?w0 w1" and t: "tick w1 = k"
      by (simp_all add: tid_def k_def)
    have "wp (process_message e m rs rid data tid) ?Q
           (\<lambda>x. wp (handleMessage_catch e m rs rid tid x) ?Q (\<lambda>_ _. False)) w1"
      by (rule wp_cons [OF process_message_billed [OF assms(4,6,7)]])
        (use q t rid in \<open>auto simp: quiet_def intro!: wp_cons [OF handleMessage_catch_effect]\<close>)
    with r show ?case
      by simp
  next
    case (2 x w1)
    then show ?case
      by simp
  qed
  then show ?thesis
    unfolding wp_handleMessage by (simp add: wp_rules)
qed

lemma resume_completes:
  "last (console (snd (handleMessage env_up (delivery ''resume'') world0))) =
     Log ''Message acknowledged'' [JStr ''delivery-1'']"
  by code_simp

text \<open>
  Claim C2, as stated, fails twice.  A resume signal that carries the agent id
  \<^verbatim>\<open>"agent-1"\<close> leaves the usage logs as they were when the store rejects the handler's
  writes (the exception is caught and the message acknowledged).  And a resume signal that
  carries the agent id \<^verbatim>\<open>""\<close> is processed to the end without a usage log, because the
  handler tests \<^verbatim>\<open>if (data.agentId)\<close>.
\<close>

theorem resume_can_log_nothing:
  "JSON_parse env_down (msg_data (delivery ''resume'')) = Some resume_signal \<and>
   js_get resume_signal ''type'' = Inr (JStr ''RESUME'') \<and>
   js_get resume_signal ''agentId'' = Inr (JStr ''agent-1'') \<and>
   usageLogs (snd (handleMessage env_down (delivery ''resume'') world0)) = usageLogs world0 \<and>
   JSON_parse env_blank (msg_data (delivery ''resume'')) = Some blank_resume_signal \<and>
   js_get blank_resume_signal ''type'' = Inr (JStr ''RESUME'') \<and>
   js_get blank_resume_signal ''agentId'' = Inr (JStr []) \<and>
   last (console (snd (handleMessage env_blank (delivery ''resume'') world0))) =
     Log ''Message acknowledged'' [JStr ''delivery-1''] \<and>
   usageLogs (snd (handleMessage env_blank (delivery ''resume'') world0)) = usageLogs world0"
  by code_simp

text \<open>
  Claim C2, amended.  For a delivered message whose body parses to \<open>data\<close> with
  \<^verbatim>\<open>data.type === "RESUME"\<close> (so \<open>data\<close> is an object, and \<open>d\<close>, \<open>agentId\<close> and
  \<open>taskId\<close> are its \<^verbatim>\<open>traceId\<close>, \<^verbatim>\<open>agentId\<close> and \<^verbatim>\<open>taskId\<close>): on every path no task
  is created or changed and at most one usage log is created.  The usage log \<open>u\<close> has the
  agent id \<^verbatim>\<open>data.agentId\<close>, the action \<^verbatim>\<open>resume\<close>, 50 tokens, the cost 0.0005 and the
  metadata \<^verbatim>\<open>{taskId: data.taskId, traceId}\<close>, where the trace id \<open>tid\<close> is the one the
  worker resolved: the attribute if truthy, else \<^verbatim>\<open>data.traceId\<close> if truthy, else the fresh
  identifier.  It is created exactly when \<^verbatim>\<open>data.agentId\<close> is truthy and the store takes
  the two writes that come first, the root span (at interaction \<open>k\<close>) and the usage log
  itself; a span write that fails afterwards does not take it back.  So a falsy agent id
  gives no usage log, and a truthy one gives exactly \<open>u\<close> whenever the handler runs to
  completion (the \<^verbatim>\<open>try\<close> block reaches the log line after the acknowledgement).
\<close>

theorem resume_accounts_usage:
  fixes e :: env and m :: message and w :: world and data d agentId taskId :: js
  defines "tid \<equiv> if truthy (attr_traceId m) then attr_traceId m
                 else if truthy d then d else JStr (uuid_at e (Suc (Suc (tick w))))"
    and "k \<equiv> if truthy (attr_traceId m) \<or> truthy d then Suc (Suc (tick w))
               else Suc (Suc (Suc (tick w)))"
  defines "u \<equiv>
     \<lparr>log_id = uuid_at e (Suc k), log_agentId = agentId, log_action = ''resume'',
      log_tokens = 50, log_costUsd = 5 / 10000,
      log_metadata = JObj [(''taskId'', taskId), (''traceId'', tid)]\<rparr>"
  assumes "JSON_parse e (msg_data m) = Some data"
    and "js_get data ''type'' = Inr (JStr ''RESUME'')"
    and "js_get data ''traceId'' = Inr d"
    and "js_get data ''agentId'' = Inr agentId"
    and "js_get data ''taskId'' = Inr taskId"
  shows "tasks (snd (handleMessage e m w)) = tasks w \<and>
    usageLogs (snd (handleMessage e m w)) =
      (if truthy agentId \<and> \<not> store_rejects e k \<and>
          uuid_at e (Suc (tick w)) \<notin> span_id ` set (traceSpans w) \<and>
          \<not> store_rejects e (Suc k) \<and> uuid_at e (Suc k) \<notin> log_id ` set (usageLogs w)
       then usageLogs w @ [u] else usageLogs w) \<and>
    (\<not> truthy agentId \<longrightarrow> usageLogs (snd (handleMessage e m w)) = usageLogs w) \<and>
    (truthy agentId \<and>
     last (console (snd (handleMessage e m w))) = Log ''Message acknowledged'' [JStr (msg_id m)] \<longrightarrow>
       usageLogs (snd (handleMessage e m w)) = usageLogs w @ [u])"
proof -
  let ?w' = "snd (handleMessage e m w)"
  from handleMessage_billed [OF assms(4-), of w]
  have exact: "tasks ?w' = tasks w \<and>
    usageLogs ?w' =
      (if truthy agentId \<and> \<not> store_rejects e k \<and>
          uuid_at e (Suc (tick w)) \<notin> span_id ` set (traceSpans w) \<and>
          \<not> store_rejects e (Suc k) \<and> uuid_at e (Suc k) \<notin> log_id ` set (usageLogs w)
       then usageLogs w @ [u] else usageLogs w)"
    unfolding tid_def k_def u_def by (simp add: wp_fst_snd split: sum.splits)
  have "usageLogs ?w' = usageLogs w @ [u]"
    if "truthy agentId"
      and "last (console ?w') = Log ''Message acknowledged'' [JStr (msg_id m)]"
  proof -
    from handleMessage_resumed [OF assms(4,5), of w] that(2)
    obtain t where "resumed data t (usageLogs w) (usageLogs ?w')"
      by (auto simp: wp_fst_snd split: sum.splits)
    with assms(7,8) that(1) obtain u' where "usageLogs ?w' = usageLogs w @ [u']"
      by (auto simp: resumed_def)
    with exact show ?thesis
      by (auto split: if_splits)
  qed
  with exact show ?thesis
    by simp
qed

text \<open>
  Two runs of the seeded resume signal, whose trace id is the attribute \<^verbatim>\<open>"trace-1"\<close>:
  one in which nothing is rejected, and one in which the store rejects the write of the
  \<^verbatim>\<open>resume_agent\<close> span, after the usage log is written.
\<close>

lemma resume_interrupted:
  "last (console (snd (handleMessage (env_rejecting 5) (delivery ''resume'') world0))) =
     LogError ''Error processing message'' [JStr ''delivery-1''] PrismaError"
  by code_simp

theorem resume_accounts_usage_witness:
  "JSON_parse env_up (msg_data (delivery ''resume'')) = Some resume_signal \<and>
   js_get resume_signal ''type'' = Inr (JStr ''RESUME'') \<and>
   js_get resume_signal ''traceId'' = Inr JUndefined \<and>
   js_get resume_signal ''agentId'' = Inr (JStr ''agent-1'') \<and>
   js_get resume_signal ''taskId'' = Inr (JStr ''task-1'') \<and>
   truthy (JStr ''agent-1'') \<and>
   last (console (snd (handleMessage env_up (delivery ''resume'') world0))) =
     Log ''Message acknowledged'' [JStr (msg_id (delivery ''resume''))] \<and>
   tasks (snd (handleMessage env_up (delivery ''resume'') world0)) = tasks world0 \<and>
   usageLogs (snd (handleMessage env_up (delivery ''resume'') world0)) =
     [\<lparr>log_id = ''uuuu'', log_agentId = JStr ''agent-1'', log_action = ''resume'',
       log_tokens = 50, log_costUsd = 5 / 10000,
       log_metadata = JObj [(''taskId'', JStr ''task-1''), (''traceId'', JStr ''trace-1'')]\<rparr>] \<and>
   last (console (snd (handleMessage (env_rejecting 5) (delivery ''resume'') world0))) =
     LogError ''Error processing message'' [JStr ''delivery-1''] PrismaError \<and>
   usageLogs (snd (handleMessage (env_rejecting 5) (delivery ''resume'') world0)) =
     [\<lparr>log_id = ''uuuu'', log_agentId = JStr ''agent-1'', log_action = ''resume'',
       log_tokens = 50, log_costUsd = 5 / 10000,
       log_metadata = JObj [(''taskId'', JStr ''task-1''), (''traceId'', JStr ''trace-1'')]\<rparr>]"
proof -
  have p: "JSON_parse env_up (msg_data (delivery ''resume'')) = Some resume_signal"
    "JSON_parse (env_rejecting 5) (msg_data (delivery ''resume'')) = Some resume_signal"
    by (simp_all add: env_rejecting_def env_up_def delivery_def)
  have t: "js_get resume_signal ''type'' = Inr (JStr ''RESUME'')"
    by (simp add: resume_signal_def)
  have g: "js_get resume_signal ''traceId'' = Inr JUndefined"
    "js_get resume_signal ''agentId'' = Inr (JStr ''agent-1'')"
    "js_get resume_signal ''taskId'' = Inr (JStr ''task-1'')"
    by (simp_all add: resume_signal_def)
  have c: "last (console (snd (handleMessage env_up (delivery ''resume'') world0))) =
     Log ''Message acknowledged'' [JStr (msg_id (delivery ''resume''))]"
    using resume_completes by (simp add: delivery_def)
  from resume_accounts_usage [OF p(1) t g, of world0]
  have "tasks (snd (handleMessage env_up (delivery ''resume'') world0)) = tasks world0 \<and>
   usageLogs (snd (handleMessage env_up (delivery ''resume'') world0)) =
     [\<lparr>log_id = ''uuuu'', log_agentId = JStr ''agent-1'', log_action = ''resume'',
       log_tokens = 50, log_costUsd = 5 / 10000,
       log_metadata = JObj [(''taskId'', JStr ''task-1''), (''traceId'', JStr ''trace-1'')]\<rparr>]"
    by (simp add: env_up_def world0_def delivery_def attr_traceId_def)
  moreover from resume_accounts_usage [OF p(2) t g, of world0]
  have "usageLogs (snd (handleMessage (env_rejecting 5) (delivery ''resume'') world0)) =
     [\<lparr>log_id = ''uuuu'', log_agentId = JStr ''agent-1'', log_action = ''resume'',
       log_tokens = 50, log_costUsd = 5 / 10000,
       log_metadata = JObj [(''taskId'', JStr ''task-1''), (''traceId'', JStr ''trace-1'')]\<rparr>]"
    by (simp add: env_rejecting_def env_up_def world0_def delivery_def attr_traceId_def)
  ultimately show ?thesis
    using p(1) t g c resume_interrupted by simp
qed

section \<open>Redelivery\<close>

lemma signal_twice_completes:
  "last (console (snd (handleMessage env_up (delivery ''signal'')
      (snd (handleMessage env_up (delivery ''signal'') world0))))) =
     Log ''Message acknowledged'' [JStr ''delivery-1'']"
  by code_simp

text \<open>
  Claim C6, as stated, fails: with an agent whose role is the source, delivering the same
  message twice adds no task and no usage log when the store rejects the handler's writes.
\<close>

theorem redelivery_without_store_adds_nothing:
  "JSON_parse env_down (msg_data (delivery ''signal'')) = Some github_signal \<and>
   source_of github_signal = Inr (JStr ''github'') \<and>
   agents world0 = [github_keeper] \<and> agent_role github_keeper = ''github'' \<and>
   tasks (snd (handleMessage env_down (delivery ''signal'')
      (snd (handleMessage env_down (delivery ''signal'') world0)))) = tasks world0 \<and>
   usageLogs (snd (handleMessage env_down (delivery ''signal'')
      (snd (handleMessage env_down (delivery ''signal'') world0)))) = usageLogs world0"
  by code_simp

lemma handleMessage_matched:
  assumes "JSON_parse e (msg_data m) = Some data"
    and "js_get data ''type'' \<noteq> Inr (JStr ''RESUME'')"
    and "source_of data = Inr src"
    and "find (\<lambda>a. JStr (agent_role a) = src) (agents w) = Some a"
    and "last (console (snd (handleMessage e m w))) = Log ''Message acknowledged'' [JStr (msg_id m)]"
  shows "\<exists>tid. opened data src tid a (tasks w) (usageLogs w)
           (tasks (snd (handleMessage e m w))) (usageLogs (snd (handleMessage e m w)))"
proof -
  obtain r w' where run: "handleMessage e m w = (r, w')"
    by (cases "handleMessage e m w")
  from handleMessage_routed [OF assms(1,2), of w] run assms(5)
  obtain tid where "routed data tid (agents w) (tasks w) (usageLogs w) (tasks w') (usageLogs w')"
    by (auto simp: wp_def split: sum.splits)
  with assms(3,4) run show ?thesis
    by (auto simp: routed_def)
qed

text \<open>
  Claim C6, amended.  Let the same message (same id, data and attributes) be delivered
  twice, its body parsing to a signal other than a resume whose source is the role of an
  agent, and let the handler run to completion on both deliveries.  Then the second
  delivery adds a second task and a second usage log, for the same agent and with the same
  input payload: the tasks afterwards are the tasks before followed by two rows with
  different ids.  Nothing is deduplicated.
\<close>

theorem redelivery_opens_second_task:
  assumes "JSON_parse e1 (msg_data m) = Some data"
    and "JSON_parse e2 (msg_data m) = Some data"
    and "js_get data ''type'' \<noteq> Inr (JStr ''RESUME'')"
    and "source_of data = Inr src"
    and "find (\<lambda>a. JStr (agent_role a) = src) (agents w) = Some a"
    and "last (console (snd (handleMessage e1 m w))) =
           Log ''Message acknowledged'' [JStr (msg_id m)]"
    and "last (console (snd (handleMessage e2 m (snd (handleMessage e1 m w))))) =
           Log ''Message acknowledged'' [JStr (msg_id m)]"
  shows "\<exists>t1 t2 u1 u2.
     tasks (snd (handleMessage e2 m (snd (handleMessage e1 m w)))) = tasks w @ [t1, t2] \<and>
     task_id t1 \<noteq> task_id t2 \<and>
     task_agentId t1 = agent_id a \<and> task_agentId t2 = agent_id a \<and>
     task_inputPayload t1 = data \<and> task_inputPayload t2 = data \<and>
     usageLogs (snd (handleMessage e2 m (snd (handleMessage e1 m w)))) = usageLogs w @ [u1, u2] \<and>
     log_action u1 = ''tool_call'' \<and> log_action u2 = ''tool_call'' \<and>
     log_agentId u1 = JStr (agent_id a) \<and> log_agentId u2 = JStr (agent_id a)"
proof -
  let ?w1 = "snd (handleMessage e1 m w)"
  let ?w2 = "snd (handleMessage e2 m ?w1)"
  have same: "agents ?w1 = agents w"
    by (rule handleMessage_agents)
  from handleMessage_matched [OF assms(1,3,4,5,6)]
  obtain tid1 where one: "opened data src tid1 a (tasks w) (usageLogs w) (tasks ?w1) (usageLogs ?w1)"
    by blast
  from assms(5) same have "find (\<lambda>a. JStr (agent_role a) = src) (agents ?w1) = Some a"
    by simp
  from handleMessage_matched [OF assms(2,3,4) this assms(7)]
  obtain tid2 where two: "opened data src tid2 a (tasks ?w1) (usageLogs ?w1) (tasks ?w2) (usageLogs ?w2)"
    by blast
  from one obtain t1 u1 where r1: "tasks ?w1 = tasks w @ [t1]" "task_agentId t1 = agent_id a"
      "task_inputPayload t1 = data" "usageLogs ?w1 = usageLogs w @ [u1]"
      "log_action u1 = ''tool_call''" "log_agentId u1 = JStr (agent_id a)"
    unfolding opened_def by blast
  from two obtain t2 u2 where r2: "tasks ?w2 = tasks ?w1 @ [t2]"
      "task_id t2 \<notin> task_id ` set (tasks ?w1)" "task_agentId t2 = agent_id a"
      "task_inputPayload t2 = data" "usageLogs ?w2 = usageLogs ?w1 @ [u2]"
      "log_action u2 = ''tool_call''" "log_agentId u2 = JStr (agent_id a)"
    unfolding opened_def by blast
  from r1(1) r2(2) have "task_id t1 \<noteq> task_id t2"
    by auto
  with r1 r2 show ?thesis
    by (intro exI [of _ t1] exI [of _ t2] exI [of _ u1] exI [of _ u2]) simp
qed

theorem redelivery_opens_second_task_witness:
  "JSON_parse env_up (msg_data (delivery ''signal'')) = Some github_signal \<and>
   js_get github_signal ''type'' \<noteq> Inr (JStr ''RESUME'') \<and>
   source_of github_signal = Inr (JStr ''github'') \<and>
   find (\<lambda>a. JStr (agent_role a) = JStr ''github'') (agents world0) = Some github_keeper \<and>
   last (console (snd (handleMessage env_up (delivery ''signal'') world0))) =
     Log ''Message acknowledged'' [JStr (msg_id (delivery ''signal''))] \<and>
   last (console (snd (handleMessage env_up (delivery ''signal'')
      (snd (handleMessage env_up (delivery ''signal'') world0))))) =
     Log ''Message acknowledged'' [JStr (msg_id (delivery ''signal''))] \<and>
   (\<exists>t1 t2. tasks (snd (handleMessage env_up (delivery ''signal'')
        (snd (handleMessage env_up (delivery ''signal'') world0)))) = tasks world0 @ [t1, t2] \<and>
      task_id t1 \<noteq> task_id t2)"
proof -
  have p: "JSON_parse env_up (msg_data (delivery ''signal'')) = Some github_signal"
    by (simp add: env_up_def delivery_def)
  have t: "js_get github_signal ''type'' \<noteq> Inr (JStr ''RESUME'')"
    by (simp add: github_signal_def)
  have s: "source_of github_signal = Inr (JStr ''github'')"
    by (simp add: github_signal_def source_of_def js_or_def)
  have a: "find (\<lambda>a. JStr (agent_role a) = JStr ''github'') (agents world0) = Some github_keeper"
    by (simp add: world0_def github_keeper_def)
  have c1: "last (console (snd (handleMessage env_up (delivery ''signal'') world0))) =
     Log ''Message acknowledged'' [JStr (msg_id (delivery ''signal''))]"
    using signal_completes by (simp add: delivery_def)
  have c2: "last (console (snd (handleMessage env_up (delivery ''signal'')
      (snd (handleMessage env_up (delivery ''signal'') world0))))) =
     Log ''Message acknowledged'' [JStr (msg_id (delivery ''signal''))]"
    using signal_twice_completes by (simp add: delivery_def)
  from redelivery_opens_second_task [OF p p t s a c1 c2]
  show ?thesis
    using p t s a c1 c2 by blast
qed

section \<open>How a run changes the span table\<close>

lemma close_span_links [simp]:
  "span_id (close_span i st d sp) = span_id sp"
  "span_traceId (close_span i st d sp) = span_traceId sp"
  "span_parentId (close_span i st d sp) = span_parentId sp"
  by (simp_all add: close_span_def)

lemma parents_first_append:
  "parents_first seen (xs @ ys) \<longleftrightarrow> parents_first seen xs \<and> parents_first (seen @ xs) ys"
  by (induction xs arbitrary: seen) auto

lemma parents_first_close:
  "parents_first (map (close_span i st d) seen) (map (close_span i st d) xs) \<longleftrightarrow>
     parents_first seen xs"
proof (induction xs arbitrary: seen)
  case Nil
  then show ?case by simp
next
  case (Cons sp xs)
  from Cons [of "seen @ [sp]"] show ?case
    by (auto split: option.splits)
qed

lemma rooted_append: "rooted rid tid sps \<Longrightarrow> rooted rid tid (sps @ [sp])"
  by (auto simp: rooted_def)

lemma evolves_causal:
  assumes "evolves ok rid tid sps sps'" and "causal sps"
  shows "causal sps'"
  using assms
proof (induction rule: evolves.induct)
  case ev_refl
  then show ?case by simp
next
  case (ev_root sps1 sp)
  then show ?case by (simp add: causal_def parents_first_append)
next
  case (ev_child sps1 sp)
  then show ?case by (auto simp: causal_def parents_first_append rooted_def)
next
  case (ev_close sps1 d st)
  with parents_first_close [of rid st d "[]" sps1] show ?case
    by (simp add: causal_def)
qed

lemma evolves_traceId:
  assumes "evolves ok rid tid sps sps'"
  shows "length sps \<le> length sps' \<and> (\<forall>sp \<in> set (drop (length sps) sps'). span_traceId sp = tid)"
  using assms
proof (induction rule: evolves.induct)
  case ev_refl
  then show ?case by simp
next
  case (ev_root sps1 sp)
  then show ?case by auto
next
  case (ev_child sps1 sp)
  then show ?case by auto
next
  case (ev_close sps1 d st)
  then show ?case by (auto simp: drop_map)
qed

lemma evolves_error:
  assumes "evolves True rid tid sps sps'"
  shows "\<forall>sp \<in> set sps'. span_status sp = ''ERROR'' \<longrightarrow>
           sp \<in> set sps \<or> (\<exists>d\<ge>0. span_durationMs sp = Some d)"
  using assms
proof (induction rule: evolves.induct)
  case ev_refl
  then show ?case by simp
next
  case (ev_root sps1 sp)
  then show ?case by auto
next
  case (ev_child sps1 sp)
  then show ?case by auto
next
  case (ev_close sps1 d st)
  then show ?case by (auto simp: close_span_def)
qed

lemma steady_nonneg [simp]: "steady e \<Longrightarrow> 0 \<le> elapsed_at e k"
  unfolding steady_def by (drule spec [of _ k])

lemma steady_later [simp]: "steady e \<Longrightarrow> rs \<le> t \<Longrightarrow> rs \<le> t + elapsed_at e k"
  unfolding steady_def by (drule spec [of _ k]) simp

lemma create_task_tracing:
  assumes "tracing e rs rid tid sps w" and "rooted rid tid (traceSpans w)"
  shows "wp (create_task e rid data tid src a)
     (\<lambda>_. tracing e rs rid tid sps) (\<lambda>_. tracing e rs rid tid sps) w"
  using assms
  by (auto simp add: create_task_def wp_rules tracing_def simp del: map_append
      intro!: ev_child)

lemma handle_resume_tracing:
  assumes "tracing e rs rid tid sps w" and "rooted rid tid (traceSpans w)"
  shows "wp (handle_resume e m rs rid data tid)
     (\<lambda>_. tracing e rs rid tid sps) (\<lambda>_. tracing e rs rid tid sps) w"
  using assms
  by (auto simp add: handle_resume_def wp_rules tracing_def simp del: map_append
      intro!: ev_child ev_close)

lemma handle_signal_tracing:
  assumes "tracing e rs rid tid sps w" and "rooted rid tid (traceSpans w)"
  shows "wp (handle_signal e m rs rid data tid)
     (\<lambda>_. tracing e rs rid tid sps) (\<lambda>_. tracing e rs rid tid sps) w"
  using assms
  by (auto simp add: handle_signal_def wp_rules tracing_def rooted_append simp del: map_append
      intro!: ev_child ev_close wp_cons [OF create_task_tracing [where rs = rs]])

lemma process_message_tracing:
  assumes "tracing e rs rid tid sps w"
  shows "wp (process_message e m rs rid data tid)
     (\<lambda>_. tracing e rs rid tid sps) (\<lambda>_. tracing e rs rid tid sps) w"
  using assms
  by (auto simp add: process_message_def wp_rules tracing_def rooted_def simp del: map_append
      intro!: ev_root wp_cons [OF handle_signal_tracing [where rs = rs]]
        wp_cons [OF handle_resume_tracing [where rs = rs]])

lemma handleMessage_catch_tracing:
  assumes "tracing e rs rid tid sps w"
  shows "wp (handleMessage_catch e m rs rid tid' x)
     (\<lambda>_ w'. evolves (steady e) rid tid sps (traceSpans w')) (\<lambda>_ _. False) w"
  using assms
  by (auto simp add: handleMessage_catch_def wp_rules tracing_def intro!: ev_close)

text \<open>
  The trace id the worker resolves (lines 38 and 39): the attribute when truthy, else the
  field of the data when truthy, else a fresh identifier.
\<close>

lemma open_trace_resolved:
  "wp (open_trace e m)
     (\<lambda>(data, tid) w'. quiet w w' \<and> JSON_parse e (msg_data m) = Some data \<and>
        (truthy (attr_traceId m) \<longrightarrow> tid = attr_traceId m) \<and>
        (\<not> truthy (attr_traceId m) \<longrightarrow>
           (\<exists>d. js_get data ''traceId'' = Inr d \<and>
              tid = (if truthy d then d else JStr (uuid_at e (tick w))))))
     (\<lambda>_ w'. quiet w w' \<and>
        (\<forall>data d. JSON_parse e (msg_data m) = Some data \<longrightarrow> js_get data ''traceId'' \<noteq> Inr d)) w"
  by (auto simp add: open_trace_def parse_message_def resolve_traceId_def wp_rules quiet_def
      split: option.split)

lemma handleMessage_tracing:
  fixes e m w
  defines "Q \<equiv> \<lambda>(_::unit) w'. \<exists>rid tid. evolves (steady e) rid tid (traceSpans w) (traceSpans w') \<and>
         (truthy (attr_traceId m) \<longrightarrow> tid = attr_traceId m) \<and>
         (\<forall>data d. JSON_parse e (msg_data m) = Some data \<and> js_get data ''traceId'' = Inr d \<and>
            truthy d \<and> \<not> truthy (attr_traceId m) \<longrightarrow> tid = d)"
  shows "wp (handleMessage e m) Q (\<lambda>_ _. False) w"
proof -
  define R where "R tid \<longleftrightarrow> (truthy (attr_traceId m) \<longrightarrow> tid = attr_traceId m) \<and>
         (\<forall>data d. JSON_parse e (msg_data m) = Some data \<and> js_get data ''traceId'' = Inr d \<and>
            truthy d \<and> \<not> truthy (attr_traceId m) \<longrightarrow> tid = d)" for tid
  have caught: "wp (handleMessage_catch e m rs rid tid' x) Q (\<lambda>_ _. False) w1"
    if "tracing e rs rid tid (traceSpans w) w1" "R tid"
    for rs rid tid tid' x w1
    by (rule wp_cons [OF handleMessage_catch_tracing [OF that(1)]])
      (use that(2) in \<open>auto simp: Q_def R_def\<close>)
  have processed: "wp (process_message e m rs rid data tid) Q
      (\<lambda>x. wp (handleMessage_catch e m rs rid tid x) Q (\<lambda>_ _. False)) w1"
    if "tracing e rs rid tid (traceSpans w) w1" "R tid"
    for rs rid tid data w1
    by (rule wp_cons [OF process_message_tracing [OF that(1)]])
      (use that(2) caught in \<open>auto simp: Q_def R_def tracing_def\<close>)
  have inner: "wp (open_trace e m)
      (\<lambda>(data, tid). wp (process_message e m rs rid data tid) Q
         (\<lambda>x. wp (handleMessage_catch e m rs rid tid x) Q (\<lambda>_ _. False)))
      (\<lambda>x. wp (handleMessage_catch e m rs rid (JStr []) x) Q (\<lambda>_ _. False)) w0"
    if same: "traceSpans w0 = traceSpans w" and late: "steady e \<longrightarrow> rs \<le> now w0"
    for rs rid w0
  proof (rule wp_cons [OF open_trace_resolved [of e m w0]], goal_cases)
    case (1 a w1)
    obtain data tid where a: "a = (data, tid)"
      by (cases a)
    from 1 a have q: "quiet w0 w1"
      and p: "JSON_parse e (msg_data m) = Some data"
      and t: "truthy (attr_traceId m) \<longrightarrow> tid = attr_traceId m"
        "\<not> truthy (attr_traceId m) \<longrightarrow>
           (\<exists>d. js_get data ''traceId'' = Inr d \<and>
              tid = (if truthy d then d else JStr (uuid_at e (tick w0))))"
      by auto
    from p t have r: "R tid"
      by (auto simp: R_def)
    from q same late have "tracing e rs rid tid (traceSpans w) w1"
      by (simp add: tracing_def quiet_def ev_refl)
    from processed [OF this r] a show ?case
      by simp
  next
    case (2 x w1)
    then have r: "R (attr_traceId m)"
      by (auto simp: R_def)
    from 2 same late have "tracing e rs rid (attr_traceId m) (traceSpans w) w1"
      by (simp add: tracing_def quiet_def ev_refl)
    from caught [OF this r] show ?case .
  qed
  show ?thesis
    unfolding wp_handleMessage
    by (simp add: wp_rules inner)
qed

section \<open>What the gateway does with a request\<close>

lemma webhook_publish_effect:
  "wp (webhook_publish e rs t rid source dat)
     (\<lambda>rp w'. counted 0 1 0 w w' \<and>
        (\<exists>mid. publish_at e (Suc (tick w)) = Some mid \<and> rp = queued_reply mid t \<and>
           topic w' = topic w @ [outgoing dat t mid]))
     (\<lambda>_ w'. (publish_at e (Suc (tick w)) = None \<and> counted 0 0 0 w w' \<and> topic w' = topic w) \<or>
        (counted 0 1 0 w w' \<and>
         (\<exists>mid. publish_at e (Suc (tick w)) = Some mid \<and>
            topic w' = topic w @ [outgoing dat t mid]))) w"
  by (auto simp add: webhook_publish_def wp_rules counted_def queued_reply_def outgoing_def)

lemma webhook_catch_effect:
  "wp (webhook_catch e rs rid source x)
     (\<lambda>rp w'. counted 0 0 1 w w' \<and> topic w' = topic w \<and>
        rp = \<lparr>reply_status = 500, reply_body = JObj [(''error'', JStr ''Failed to queue message'')]\<rparr>)
     (\<lambda>_ _. False) w"
  by (simp add: webhook_catch_def wp_rules counted_def)

lemma webhook_rejected:
  assumes "\<not> truthy body \<or> typeof body \<noteq> ''object''"
  shows "wp (webhook e body)
     (\<lambda>rp w'. auditCounters w' = auditCounters w \<and> topic w' = topic w \<and>
        traceSpans w' = traceSpans w \<and>
        rp = \<lparr>reply_status = 400,
              reply_body = JObj [(''error'', JStr ''Request body must be a JSON object'')]\<rparr>)
     (\<lambda>_ _. False) w"
  using assms by (auto simp add: webhook_def wp_rules)

lemma accepted_reads:
  assumes "truthy body" and "typeof body = ''object''"
  shows "\<exists>s p. js_get body ''source'' = Inr s \<and> js_get body ''payload'' = Inr p"
  using assms by (cases body) auto

lemma webhook_accepted:
  fixes e body w s p
  defines "t \<equiv> uuid_at e (Suc (tick w))"
    and "stamp \<equiv> toISOString e (now w + elapsed_at e (tick w) +
                  elapsed_at e (Suc (Suc (Suc (Suc (tick w))))))"
    and "k \<equiv> Suc (Suc (Suc (Suc (Suc (Suc (tick w))))))"
    and "refused \<equiv> store_rejects e (Suc (Suc (Suc (tick w)))) \<or>
           uuid_at e (Suc (Suc (tick w))) \<in> span_id ` set (traceSpans w)"
  defines "dat \<equiv> JSON_stringify e
             (build_message (js_or s (JStr ''unknown'')) (js_or p body) t stamp)"
  assumes "truthy body" and "typeof body = ''object''"
    and "js_get body ''source'' = Inr s" and "js_get body ''payload'' = Inr p"
  shows "wp (webhook e body)
     (\<lambda>rp w'. \<not> refused \<and>
        ((counted 1 1 0 w w' \<and>
          (\<exists>mid. publish_at e k = Some mid \<and> rp = queued_reply mid t \<and>
             topic w' = topic w @ [outgoing dat t mid])) \<or>
         (reply_status rp = 500 \<and>
          ((publish_at e k = None \<and> counted 1 0 1 w w' \<and> topic w' = topic w) \<or>
           (counted 1 1 1 w w' \<and>
            (\<exists>mid. publish_at e k = Some mid \<and> topic w' = topic w @ [outgoing dat t mid]))))))
     (\<lambda>_ w'. refused \<and> counted 1 0 0 w w' \<and> topic w' = topic w) w"
  using assms(6-)
  unfolding t_def stamp_def dat_def k_def refused_def
  by (simp add: webhook_def wp_rules source_of_def payload_of_def)
    (auto simp: counted_def
      intro!: wp_cons [OF webhook_publish_effect] wp_cons [OF webhook_catch_effect])

lemma webhook_publish_tracing:
  assumes "tracing e rs rid (JStr t) sps w" and "rooted rid (JStr t) (traceSpans w)"
  shows "wp (webhook_publish e rs t rid source dat)
     (\<lambda>_. tracing e rs rid (JStr t) sps) (\<lambda>_. tracing e rs rid (JStr t) sps) w"
  using assms
  by (auto simp add: webhook_publish_def wp_rules tracing_def simp del: map_append
      intro!: ev_child ev_close)

lemma webhook_catch_tracing:
  assumes "tracing e rs rid tid sps w"
  shows "wp (webhook_catch e rs rid source x)
     (\<lambda>_ w'. evolves (steady e) rid tid sps (traceSpans w')) (\<lambda>_ _. False) w"
  using assms
  by (auto simp add: webhook_catch_def wp_rules tracing_def intro!: ev_close)

lemma webhook_tracing:
  "wp (webhook e body)
     (\<lambda>_ w'. \<exists>rid tid. evolves (steady e) rid tid (traceSpans w) (traceSpans w'))
     (\<lambda>_ w'. \<exists>rid tid. evolves (steady e) rid tid (traceSpans w) (traceSpans w')) w"
proof -
  have caught: "wp (webhook_catch e rs rid source x)
      (\<lambda>_ w'. \<exists>rid tid. evolves (steady e) rid tid (traceSpans w) (traceSpans w'))
      (\<lambda>_ w'. \<exists>rid tid. evolves (steady e) rid tid (traceSpans w) (traceSpans w')) w1"
    if "tracing e rs rid tid (traceSpans w) w1" for rs rid tid source x w1
    by (rule wp_cons [OF webhook_catch_tracing [OF that]]) auto
  have published: "wp (webhook_publish e rs t rid source dat)
      (\<lambda>_ w'. \<exists>rid tid. evolves (steady e) rid tid (traceSpans w) (traceSpans w'))
      (\<lambda>x. wp (webhook_catch e rs rid source x)
        (\<lambda>_ w'. \<exists>rid tid. evolves (steady e) rid tid (traceSpans w) (traceSpans w'))
        (\<lambda>_ w'. \<exists>rid tid. evolves (steady e) rid tid (traceSpans w) (traceSpans w'))) w1"
    if "tracing e rs rid (JStr t) (traceSpans w) w1" "rooted rid (JStr t) (traceSpans w1)"
    for rs rid t source dat w1
    by (rule wp_cons [OF webhook_publish_tracing [OF that]])
      (use caught in \<open>auto simp: tracing_def\<close>)
  show ?thesis
    by (simp add: webhook_def wp_rules)
      (auto simp: tracing_def rooted_def intro!: published [where rs = "now w + elapsed_at e (tick w)"]
         ev_root ev_refl)
qed

section \<open>Invariants of the span table\<close>

lemma handleMessage_evolves:
  "\<exists>rid tid. evolves (steady e) rid tid (traceSpans w) (traceSpans (snd (handleMessage e m w))) \<and>
     (truthy (attr_traceId m) \<longrightarrow> tid = attr_traceId m) \<and>
     (\<forall>data d. JSON_parse e (msg_data m) = Some data \<and> js_get data ''traceId'' = Inr d \<and>
        truthy d \<and> \<not> truthy (attr_traceId m) \<longrightarrow> tid = d)"
  using handleMessage_tracing [of e m w] by (simp add: wp_fst_snd split: sum.splits)

lemma webhook_evolves:
  "\<exists>rid tid. evolves (steady e) rid tid (traceSpans w) (traceSpans (snd (webhook e body w)))"
  using webhook_tracing [of e body w] by (simp add: wp_fst_snd split: sum.splits)

text \<open>
  Claim C8.  Read the span table in the order of creation.  If every span that names a
  parent comes after a span with that id and the same trace id, the same holds after the
  worker has handled a message and after the gateway has handled a request, on every path:
  a child span is written only once its root span is in the table, under the root's trace
  id, and no span is removed.
\<close>

theorem spans_stay_causal:
  assumes "causal (traceSpans w)"
  shows "causal (traceSpans (snd (handleMessage e m w))) \<and>
         causal (traceSpans (snd (webhook e body w)))"
proof
  from handleMessage_evolves [of e w m] obtain rid tid
    where "evolves (steady e) rid tid (traceSpans w) (traceSpans (snd (handleMessage e m w)))"
    by blast
  then show "causal (traceSpans (snd (handleMessage e m w)))"
    using assms by (rule evolves_causal)
next
  from webhook_evolves [of e w body] obtain rid tid
    where "evolves (steady e) rid tid (traceSpans w) (traceSpans (snd (webhook e body w)))"
    by blast
  then show "causal (traceSpans (snd (webhook e body w)))"
    using assms by (rule evolves_causal)
qed

lemma signal_spans:
  "map span_parentId (traceSpans (snd (handleMessage env_up (delivery ''signal'') world0))) =
     [None, Some ''uu'', Some ''uu'']"
  by code_simp

theorem spans_stay_causal_witness:
  "causal (traceSpans world0) \<and>
   map span_parentId (traceSpans (snd (handleMessage env_up (delivery ''signal'') world0))) =
     [None, Some ''uu'', Some ''uu''] \<and>
   causal (traceSpans (snd (handleMessage env_up (delivery ''signal'') world0))) \<and>
   causal (traceSpans (snd (webhook env_up github_body world0)))"
proof -
  have "causal (traceSpans world0)"
    by (simp add: world0_def causal_def)
  from spans_stay_causal [OF this] this signal_spans show ?thesis
    by simp
qed

section \<open>Error paths\<close>

lemma close_span_others: "rid \<notin> span_id ` set sps \<Longrightarrow> map (close_span rid st d) sps = sps"
  by (induction sps) (auto simp: close_span_def)

text \<open>
  The two \<^verbatim>\<open>catch\<close> blocks: each returns normally whatever the span update does, and the
  update changes the table exactly when the store takes it.
\<close>

lemma handleMessage_catch_closes:
  "wp (handleMessage_catch e m rs rid tid x)
     (\<lambda>_ w'. traceSpans w' =
        (if truthy tid \<and> \<not> store_rejects e (Suc (tick w)) \<and> rid \<in> span_id ` set (traceSpans w)
         then map (close_span rid (Some ''ERROR'') (now w + elapsed_at e (tick w) - rs))
                (traceSpans w)
         else traceSpans w))
     (\<lambda>_ _. False) w"
  by (simp add: handleMessage_catch_def wp_rules)

lemma webhook_catch_closes:
  "wp (webhook_catch e rs rid source x)
     (\<lambda>rp w'.
        rp = \<lparr>reply_status = 500, reply_body = JObj [(''error'', JStr ''Failed to queue message'')]\<rparr> \<and>
        traceSpans w' =
          (if \<not> store_rejects e (Suc (tick w)) \<and> rid \<in> span_id ` set (traceSpans w)
           then map (close_span rid (Some ''ERROR'') (now w + elapsed_at e (tick w) - rs))
                  (traceSpans w)
           else traceSpans w))
     (\<lambda>_ _. False) w"
  by (simp add: webhook_catch_def wp_rules)

text \<open>
  The worker runs its \<^verbatim>\<open>catch\<close> block with the empty trace id when the exception leaves
  the first part of the \<^verbatim>\<open>try\<close> block, and with the resolved one, the first clock reading
  and the root span's id when it leaves the rest.
\<close>

lemma handleMessage_unresolved:
  assumes "fst (open_trace e m (w\<lparr>now := now w + elapsed_at e (tick w),
                                  tick := Suc (Suc (tick w))\<rparr>)) = Inl x"
  shows "traceSpans (snd (handleMessage e m w)) = traceSpans w"
proof -
  let ?w0 = "w\<lparr>now := now w + elapsed_at e (tick w), tick := Suc (Suc (tick w))\<rparr>"
  obtain w1 where run: "open_trace e m ?w0 = (Inl x, w1)"
    using assms by (cases "open_trace e m ?w0") simp
  from open_trace_quiet [of e m ?w0] run have same: "traceSpans w1 = traceSpans w"
    by (simp add: wp_def quiet_def)
  have "handleMessage e m w =
      handleMessage_catch e m (now w + elapsed_at e (tick w)) (uuid_at e (Suc (tick w)))
        (JStr []) x w1"
    using run by (simp add: handleMessage_def io_bind_def Date_now_def randomUUID_def Let_def)
  with handleMessage_catch_closes
    [of e m "now w + elapsed_at e (tick w)" "uuid_at e (Suc (tick w))" "JStr []" x w1] same
  show ?thesis
    by (simp add: wp_fst_snd split: sum.splits)
qed

lemma handleMessage_caught:
  fixes e m w data tid
  defines "rs \<equiv> now w + elapsed_at e (tick w)"
    and "rid \<equiv> uuid_at e (Suc (tick w))"
  defines "w1 \<equiv> snd (open_trace e m (w\<lparr>now := rs, tick := Suc (Suc (tick w))\<rparr>))"
  defines "w2 \<equiv> snd (process_message e m rs rid data tid w1)"
  assumes "fst (open_trace e m (w\<lparr>now := rs, tick := Suc (Suc (tick w))\<rparr>)) = Inr (data, tid)"
    and "fst (process_message e m rs rid data tid w1) = Inl x"
  shows "traceSpans (snd (handleMessage e m w)) =
     (if truthy tid \<and> \<not> store_rejects e (Suc (tick w2)) \<and> rid \<in> span_id ` set (traceSpans w2)
      then map (close_span rid (Some ''ERROR'') (now w2 + elapsed_at e (tick w2) - rs))
             (traceSpans w2)
      else traceSpans w2)"
proof -
  let ?w0 = "w\<lparr>now := rs, tick := Suc (Suc (tick w))\<rparr>"
  have opened: "open_trace e m ?w0 = (Inr (data, tid), w1)"
    using assms(5) unfolding w1_def by (cases "open_trace e m ?w0") simp
  have thrown: "process_message e m rs rid data tid w1 = (Inl x, w2)"
    using assms(6) unfolding w2_def by (cases "process_message e m rs rid data tid w1") simp
  have "handleMessage e m w = handleMessage_catch e m rs rid tid x w2"
    using opened thrown unfolding rs_def rid_def
    by (simp add: handleMessage_def io_bind_def Date_now_def randomUUID_def try_catch_def Let_def)
  with handleMessage_catch_closes [of e m rs rid tid x w2] show ?thesis
    by (simp add: wp_fst_snd split: sum.splits)
qed

text \<open>The gateway's handler when the root span is written and the topic refuses the publish.\<close>

lemma webhook_unpublished:
  fixes e body w s
  defines "k \<equiv> tick w"
  defines "rootSpan \<equiv>
     \<lparr>span_id = uuid_at e (k + 2), span_traceId = JStr (uuid_at e (k + 1)),
      span_parentId = None, span_service = ''ingress'', span_operation = ''webhook_receive'',
      span_durationMs = None, span_status = ''OK'',
      span_metadata = JObj [(''source'', if truthy s then s else JStr ''unknown'')]\<rparr>"
  assumes "truthy body" and "typeof body = ''object''" and "js_get body ''source'' = Inr s"
    and "\<not> store_rejects e (k + 3)" and "uuid_at e (k + 2) \<notin> span_id ` set (traceSpans w)"
    and "publish_at e (k + 6) = None"
  shows "wp (webhook e body)
     (\<lambda>rp w'.
        rp = \<lparr>reply_status = 500, reply_body = JObj [(''error'', JStr ''Failed to queue message'')]\<rparr> \<and>
        traceSpans w' =
          (if store_rejects e (k + 8) then traceSpans w @ [rootSpan]
           else traceSpans w @
                  [rootSpan\<lparr>span_durationMs :=
                          Some (elapsed_at e (k + 4) + elapsed_at e (k + 5) + elapsed_at e (k + 7)),
                        span_status := ''ERROR''\<rparr>]))
     (\<lambda>_ _. False) w"
proof -
  from assms(3,4) obtain p where "js_get body ''payload'' = Inr p"
    using accepted_reads by blast
  with assms(3-) show ?thesis
    unfolding k_def rootSpan_def
    by (simp add: webhook_def webhook_publish_def webhook_catch_def wp_rules source_of_def
        payload_of_def js_or_def close_span_others close_span_def eval_nat_numeral)
qed

text \<open>
  Claim C7, as stated, fails: \<^verbatim>\<open>Date.now()\<close> is the wall clock and nothing clamps the
  difference of two readings.  When the clock is set back ten milliseconds before the
  \<^verbatim>\<open>catch\<close> block reads it, the worker (whose agent lookup the store rejects) closes its
  root span with status \<^verbatim>\<open>ERROR\<close> and the duration \<open>-9\<close>, and the gateway (whose
  publish the topic refuses) closes its root span with status \<^verbatim>\<open>ERROR\<close> and the
  duration \<open>-8\<close>.
\<close>

theorem clock_set_back_gives_negative_duration:
  "map span_status
     (traceSpans (snd (handleMessage env_clock_back (delivery ''signal'') world0))) = [''ERROR''] \<and>
   map span_durationMs
     (traceSpans (snd (handleMessage env_clock_back (delivery ''signal'') world0))) = [Some (- 9)] \<and>
   map span_status
     (traceSpans (snd (webhook env_topic_down_clock_back github_body world0))) = [''ERROR''] \<and>
   map span_durationMs
     (traceSpans (snd (webhook env_topic_down_clock_back github_body world0))) = [Some (- 8)] \<and>
   \<not> (0::int) \<le> - 9 \<and> \<not> (0::int) \<le> - 8"
  by code_simp

text \<open>
  Claim C7, amended.  The duration written on an error path is the reading of the clock in
  the \<^verbatim>\<open>catch\<close> block minus the reading at the start of the handler; it is not negative
  when no reading of the clock is earlier than the one before.

  The worker (\<open>rootStart\<close> is its first reading of the clock, \<open>rootSpanId\<close> the id it
  draws for the root span, \<open>w1\<close> the world once the trace id is resolved, \<open>w2\<close> the
  world in which the rest of the \<^verbatim>\<open>try\<close> block throws): the handler always returns
  normally, so a failure of the span update never propagates; when the exception is thrown
  before a trace id is resolved the span table stays as it was; when it is thrown afterwards,
  the final table is the table at the throw with the root span closed by \<open>close_span\<close>,
  with status \<^verbatim>\<open>ERROR\<close> and the duration \<open>now w2 + elapsed_at e (tick w2) - rootStart\<close>,
  if the trace id is truthy, the store takes the update and the root span exists, and is
  the table at the throw otherwise.

  The gateway, for an accepted body whose root span is written and whose publish the topic
  refuses: the reply is 500 and the final table is the old one followed by the root span,
  with status \<^verbatim>\<open>ERROR\<close> and as duration the sum of the clock's three steps since the
  start, unless the store rejects the update, in which case the root span stays as written.

  \<open>close_span\<close> sets the status and the duration of the spans with the root span's id and
  leaves every other span alone.  With a steady clock, after either handler every span with
  status \<^verbatim>\<open>ERROR\<close> that was not in the table before as it is has a duration that is not
  negative.
\<close>

theorem error_path_closes_root_span:
  fixes e :: env and m :: message and w :: world and body data tid s :: js and x :: exn
  defines "rootStart \<equiv> now w + elapsed_at e (tick w)"
    and "rootSpanId \<equiv> uuid_at e (Suc (tick w))"
    and "k \<equiv> tick w"
  defines "w1 \<equiv> snd (open_trace e m (w\<lparr>now := rootStart, tick := Suc (Suc (tick w))\<rparr>))"
  defines "w2 \<equiv> snd (process_message e m rootStart rootSpanId data tid w1)"
  defines "rootSpan \<equiv>
     \<lparr>span_id = uuid_at e (k + 2), span_traceId = JStr (uuid_at e (k + 1)),
      span_parentId = None, span_service = ''ingress'', span_operation = ''webhook_receive'',
      span_durationMs = None, span_status = ''OK'',
      span_metadata = JObj [(''source'', if truthy s then s else JStr ''unknown'')]\<rparr>"
  shows
  "fst (handleMessage e m w) = Inr () \<and>
   (fst (open_trace e m (w\<lparr>now := rootStart, tick := Suc (Suc (tick w))\<rparr>)) = Inl x \<longrightarrow>
      traceSpans (snd (handleMessage e m w)) = traceSpans w) \<and>
   (fst (open_trace e m (w\<lparr>now := rootStart, tick := Suc (Suc (tick w))\<rparr>)) = Inr (data, tid) \<and>
    fst (process_message e m rootStart rootSpanId data tid w1) = Inl x \<longrightarrow>
      traceSpans (snd (handleMessage e m w)) =
        (if truthy tid \<and> \<not> store_rejects e (Suc (tick w2)) \<and>
            rootSpanId \<in> span_id ` set (traceSpans w2)
         then map (close_span rootSpanId (Some ''ERROR'')
                     (now w2 + elapsed_at e (tick w2) - rootStart)) (traceSpans w2)
         else traceSpans w2)) \<and>
   (truthy body \<and> typeof body = ''object'' \<and> js_get body ''source'' = Inr s \<and>
    \<not> store_rejects e (k + 3) \<and> uuid_at e (k + 2) \<notin> span_id ` set (traceSpans w) \<and>
    publish_at e (k + 6) = None \<longrightarrow>
      fst (webhook e body w) =
        Inr \<lparr>reply_status = 500,
             reply_body = JObj [(''error'', JStr ''Failed to queue message'')]\<rparr> \<and>
      traceSpans (snd (webhook e body w)) =
        (if store_rejects e (k + 8) then traceSpans w @ [rootSpan]
         else traceSpans w @
                [rootSpan\<lparr>span_durationMs :=
                            Some (elapsed_at e (k + 4) + elapsed_at e (k + 5) +
                                  elapsed_at e (k + 7)),
                          span_status := ''ERROR''\<rparr>])) \<and>
   (\<forall>sp d. span_id sp = rootSpanId \<longrightarrow>
      span_status (close_span rootSpanId (Some ''ERROR'') d sp) = ''ERROR'' \<and>
      span_durationMs (close_span rootSpanId (Some ''ERROR'') d sp) = Some d) \<and>
   (\<forall>sp d. span_id sp \<noteq> rootSpanId \<longrightarrow> close_span rootSpanId (Some ''ERROR'') d sp = sp) \<and>
   ((\<forall>n. 0 \<le> elapsed_at e n) \<longrightarrow>
      (\<forall>sp \<in> set (traceSpans (snd (handleMessage e m w))).
         span_status sp = ''ERROR'' \<longrightarrow>
         sp \<in> set (traceSpans w) \<or> (\<exists>d\<ge>0. span_durationMs sp = Some d)) \<and>
      (\<forall>sp \<in> set (traceSpans (snd (webhook e body w))).
         span_status sp = ''ERROR'' \<longrightarrow>
         sp \<in> set (traceSpans w) \<or> (\<exists>d\<ge>0. span_durationMs sp = Some d)))"
proof (intro conjI impI allI)
  show "fst (handleMessage e m w) = Inr ()"
    using handleMessage_settled [of e m w] by (simp add: wp_fst_snd split: sum.splits)
next
  assume "fst (open_trace e m (w\<lparr>now := rootStart, tick := Suc (Suc (tick w))\<rparr>)) = Inl x"
  then show "traceSpans (snd (handleMessage e m w)) = traceSpans w"
    unfolding rootStart_def by (rule handleMessage_unresolved)
next
  assume "fst (open_trace e m (w\<lparr>now := rootStart, tick := Suc (Suc (tick w))\<rparr>)) = Inr (data, tid) \<and>
    fst (process_message e m rootStart rootSpanId data tid w1) = Inl x"
  then show "traceSpans (snd (handleMessage e m w)) =
        (if truthy tid \<and> \<not> store_rejects e (Suc (tick w2)) \<and>
            rootSpanId \<in> span_id ` set (traceSpans w2)
         then map (close_span rootSpanId (Some ''ERROR'')
                     (now w2 + elapsed_at e (tick w2) - rootStart)) (traceSpans w2)
         else traceSpans w2)"
    unfolding w2_def w1_def rootStart_def rootSpanId_def
    using handleMessage_caught [of e m w data tid x] by blast
next
  assume accepted: "truthy body \<and> typeof body = ''object'' \<and> js_get body ''source'' = Inr s \<and>
    \<not> store_rejects e (k + 3) \<and> uuid_at e (k + 2) \<notin> span_id ` set (traceSpans w) \<and>
    publish_at e (k + 6) = None"
  then have run: "wp (webhook e body)
     (\<lambda>rp w'.
        rp = \<lparr>reply_status = 500, reply_body = JObj [(''error'', JStr ''Failed to queue message'')]\<rparr> \<and>
        traceSpans w' =
          (if store_rejects e (k + 8) then traceSpans w @ [rootSpan]
           else traceSpans w @
                  [rootSpan\<lparr>span_durationMs :=
                              Some (elapsed_at e (k + 4) + elapsed_at e (k + 5) +
                                    elapsed_at e (k + 7)),
                            span_status := ''ERROR''\<rparr>]))
     (\<lambda>_ _. False) w"
    unfolding k_def rootSpan_def using webhook_unpublished [of body s e w] by blast
  from run show "fst (webhook e body w) =
        Inr \<lparr>reply_status = 500,
             reply_body = JObj [(''error'', JStr ''Failed to queue message'')]\<rparr>"
    by (simp add: wp_fst_snd split: sum.splits)
  from run show "traceSpans (snd (webhook e body w)) =
        (if store_rejects e (k + 8) then traceSpans w @ [rootSpan]
         else traceSpans w @
                [rootSpan\<lparr>span_durationMs :=
                            Some (elapsed_at e (k + 4) + elapsed_at e (k + 5) +
                                  elapsed_at e (k + 7)),
                          span_status := ''ERROR''\<rparr>])"
    by (simp add: wp_fst_snd split: sum.splits)
next
  fix sp :: traceSpan and d :: int
  assume "span_id sp = rootSpanId"
  then show "span_status (close_span rootSpanId (Some ''ERROR'') d sp) = ''ERROR''"
    and "span_durationMs (close_span rootSpanId (Some ''ERROR'') d sp) = Some d"
    by (simp_all add: close_span_def)
next
  fix sp :: traceSpan and d :: int
  assume "span_id sp \<noteq> rootSpanId"
  then show "close_span rootSpanId (Some ''ERROR'') d sp = sp"
    by (simp add: close_span_def)
next
  assume "\<forall>n. 0 \<le> elapsed_at e n"
  then have st: "steady e"
    by (simp add: steady_def)
  from handleMessage_evolves [of e w m] st obtain r t
    where "evolves True r t (traceSpans w) (traceSpans (snd (handleMessage e m w)))"
    by auto
  then show "\<forall>sp \<in> set (traceSpans (snd (handleMessage e m w))).
      span_status sp = ''ERROR'' \<longrightarrow>
      sp \<in> set (traceSpans w) \<or> (\<exists>d\<ge>0. span_durationMs sp = Some d)"
    by (rule evolves_error)
  from webhook_evolves [of e w body] st obtain r t
    where "evolves True r t (traceSpans w) (traceSpans (snd (webhook e body w)))"
    by auto
  then show "\<forall>sp \<in> set (traceSpans (snd (webhook e body w))).
      span_status sp = ''ERROR'' \<longrightarrow>
      sp \<in> set (traceSpans w) \<or> (\<exists>d\<ge>0. span_durationMs sp = Some d)"
    by (rule evolves_error)
qed

text \<open>
  The worker when the store rejects the agent lookup: the state in which the \<^verbatim>\<open>try\<close>
  block throws.
\<close>

lemma failed_lookup_thrown:
  "fst (open_trace (env_rejecting 4) (delivery ''signal'')
          (world0\<lparr>now := now world0 + elapsed_at (env_rejecting 4) (tick world0),
                   tick := Suc (Suc (tick world0))\<rparr>)) =
     Inr (github_signal, JStr ''trace-1'') \<and>
   fst (process_message (env_rejecting 4) (delivery ''signal'')
          (now world0 + elapsed_at (env_rejecting 4) (tick world0))
          (uuid_at (env_rejecting 4) (Suc (tick world0))) github_signal (JStr ''trace-1'')
          (snd (open_trace (env_rejecting 4) (delivery ''signal'')
             (world0\<lparr>now := now world0 + elapsed_at (env_rejecting 4) (tick world0),
                      tick := Suc (Suc (tick world0))\<rparr>)))) = Inl PrismaError"
  by code_simp

lemma failed_lookup_state:
  "tick (snd (process_message (env_rejecting 4) (delivery ''signal'')
          (now world0 + elapsed_at (env_rejecting 4) (tick world0))
          (uuid_at (env_rejecting 4) (Suc (tick world0))) github_signal (JStr ''trace-1'')
          (snd (open_trace (env_rejecting 4) (delivery ''signal'')
             (world0\<lparr>now := now world0 + elapsed_at (env_rejecting 4) (tick world0),
                      tick := Suc (Suc (tick world0))\<rparr>))))) = 5 \<and>
   now (snd (process_message (env_rejecting 4) (delivery ''signal'')
          (now world0 + elapsed_at (env_rejecting 4) (tick world0))
          (uuid_at (env_rejecting 4) (Suc (tick world0))) github_signal (JStr ''trace-1'')
          (snd (open_trace (env_rejecting 4) (delivery ''signal'')
             (world0\<lparr>now := now world0 + elapsed_at (env_rejecting 4) (tick world0),
                      tick := Suc (Suc (tick world0))\<rparr>))))) = 2 \<and>
   traceSpans (snd (process_message (env_rejecting 4) (delivery ''signal'')
          (now world0 + elapsed_at (env_rejecting 4) (tick world0))
          (uuid_at (env_rejecting 4) (Suc (tick world0))) github_signal (JStr ''trace-1'')
          (snd (open_trace (env_rejecting 4) (delivery ''signal'')
             (world0\<lparr>now := now world0 + elapsed_at (env_rejecting 4) (tick world0),
                      tick := Suc (Suc (tick world0))\<rparr>))))) =
     [\<lparr>span_id = ''uu'', span_traceId = JStr ''trace-1'', span_parentId = None,
       span_service = ''orchestrator'', span_operation = ''process_message'',
       span_durationMs = None, span_status = ''OK'',
       span_metadata = JObj [(''messageId'', JStr ''delivery-1'')]\<rparr>]"
  by code_simp

theorem error_path_closes_root_span_witness:
  "fst (open_trace (env_rejecting 4) (delivery ''signal'')
          (world0\<lparr>now := now world0 + elapsed_at (env_rejecting 4) (tick world0),
                   tick := Suc (Suc (tick world0))\<rparr>)) =
     Inr (github_signal, JStr ''trace-1'') \<and>
   fst (process_message (env_rejecting 4) (delivery ''signal'')
          (now world0 + elapsed_at (env_rejecting 4) (tick world0))
          (uuid_at (env_rejecting 4) (Suc (tick world0))) github_signal (JStr ''trace-1'')
          (snd (open_trace (env_rejecting 4) (delivery ''signal'')
             (world0\<lparr>now := now world0 + elapsed_at (env_rejecting 4) (tick world0),
                      tick := Suc (Suc (tick world0))\<rparr>)))) = Inl PrismaError \<and>
   fst (handleMessage (env_rejecting 4) (delivery ''signal'') world0) = Inr () \<and>
   traceSpans (snd (handleMessage (env_rejecting 4) (delivery ''signal'') world0)) =
     [\<lparr>span_id = ''uu'', span_traceId = JStr ''trace-1'', span_parentId = None,
       span_service = ''orchestrator'', span_operation = ''process_message'',
       span_durationMs = Some 2, span_status = ''ERROR'',
       span_metadata = JObj [(''messageId'', JStr ''delivery-1'')]\<rparr>] \<and>
   truthy github_body \<and> typeof github_body = ''object'' \<and>
   js_get github_body ''source'' = Inr (JStr ''github'') \<and>
   \<not> store_rejects env_topic_down (tick world0 + 3) \<and>
   uuid_at env_topic_down (tick world0 + 2) \<notin> span_id ` set (traceSpans world0) \<and>
   publish_at env_topic_down (tick world0 + 6) = None \<and>
   (\<forall>n. 0 \<le> elapsed_at env_topic_down n) \<and>
   fst (webhook env_topic_down github_body world0) =
     Inr \<lparr>reply_status = 500, reply_body = JObj [(''error'', JStr ''Failed to queue message'')]\<rparr> \<and>
   traceSpans (snd (webhook env_topic_down github_body world0)) =
     [\<lparr>span_id = ''uuu'', span_traceId = JStr ''uu'', span_parentId = None,
       span_service = ''ingress'', span_operation = ''webhook_receive'',
       span_durationMs = Some 3, span_status = ''ERROR'',
       span_metadata = JObj [(''source'', JStr ''github'')]\<rparr>]"
proof -
  let ?e = "env_rejecting 4" and ?m = "delivery ''signal''"
  let ?rs = "now world0 + elapsed_at ?e (tick world0)"
  let ?rid = "uuid_at ?e (Suc (tick world0))"
  let ?w1 = "snd (open_trace ?e ?m (world0\<lparr>now := ?rs, tick := Suc (Suc (tick world0))\<rparr>))"
  let ?w2 = "snd (process_message ?e ?m ?rs ?rid github_signal (JStr ''trace-1'') ?w1)"
  from error_path_closes_root_span
    [of ?e ?m world0 PrismaError github_signal "JStr ''trace-1''"]
    failed_lookup_thrown
  have returns: "fst (handleMessage ?e ?m world0) = Inr ()"
    and "traceSpans (snd (handleMessage ?e ?m world0)) =
     (if truthy (JStr ''trace-1'') \<and> \<not> store_rejects ?e (Suc (tick ?w2)) \<and>
         ?rid \<in> span_id ` set (traceSpans ?w2)
      then map (close_span ?rid (Some ''ERROR'') (now ?w2 + elapsed_at ?e (tick ?w2) - ?rs))
             (traceSpans ?w2)
      else traceSpans ?w2)"
    by blast+
  then have worker: "traceSpans (snd (handleMessage ?e ?m world0)) =
     [\<lparr>span_id = ''uu'', span_traceId = JStr ''trace-1'', span_parentId = None,
       span_service = ''orchestrator'', span_operation = ''process_message'',
       span_durationMs = Some 2, span_status = ''ERROR'',
       span_metadata = JObj [(''messageId'', JStr ''delivery-1'')]\<rparr>]"
    unfolding failed_lookup_state [THEN conjunct1]
      failed_lookup_state [THEN conjunct2, THEN conjunct1]
      failed_lookup_state [THEN conjunct2, THEN conjunct2]
    by (simp add: env_rejecting_def env_up_def world0_def close_span_def)
  have g: "truthy github_body \<and> typeof github_body = ''object'' \<and>
     js_get github_body ''source'' = Inr (JStr ''github'') \<and>
     \<not> store_rejects env_topic_down (tick world0 + 3) \<and>
     uuid_at env_topic_down (tick world0 + 2) \<notin> span_id ` set (traceSpans world0) \<and>
     publish_at env_topic_down (tick world0 + 6) = None \<and>
     (\<forall>n. 0 \<le> elapsed_at env_topic_down n)"
    by (simp add: github_body_def env_topic_down_def env_up_def world0_def)
  from error_path_closes_root_span
    [of env_topic_down ?m world0 PrismaError github_signal "JStr ''trace-1''"
       github_body "JStr ''github''"] g
  have "fst (webhook env_topic_down github_body world0) =
     Inr \<lparr>reply_status = 500, reply_body = JObj [(''error'', JStr ''Failed to queue message'')]\<rparr> \<and>
   traceSpans (snd (webhook env_topic_down github_body world0)) =
     [\<lparr>span_id = ''uuu'', span_traceId = JStr ''uu'', span_parentId = None,
       span_service = ''ingress'', span_operation = ''webhook_receive'',
       span_durationMs = Some 3, span_status = ''ERROR'',
       span_metadata = JObj [(''source'', JStr ''github'')]\<rparr>]"
    by (simp add: env_topic_down_def env_up_def world0_def eval_nat_numeral)
  with returns worker g failed_lookup_thrown show ?thesis
    by blast
qed

section \<open>One trace id from the gateway to the worker\<close>

lemma resolve_traceId_order:
  "fst (resolve_traceId e m data w) =
     (if truthy (attr_traceId m) then Inr (attr_traceId m)
      else case js_get data ''traceId'' of
             Inl x \<Rightarrow> Inl x
           | Inr d \<Rightarrow> Inr (if truthy d then d else JStr (uuid_at e (tick w))))"
  by (simp add: resolve_traceId_def io_bind_def io_return_def io_of_def randomUUID_def
      console_log_def split: sum.splits)

lemma delivered_spans:
  assumes "t \<noteq> []" and "map_of (msg_attributes m) ''traceId'' = Some t"
  shows "\<forall>sp \<in> set (drop (length (traceSpans v)) (traceSpans (snd (handleMessage e m v)))).
           span_traceId sp = JStr t"
proof -
  from assms have attr: "attr_traceId m = JStr t" "truthy (attr_traceId m)"
    by (simp_all add: attr_traceId_def)
  from handleMessage_evolves [of e v m] attr obtain rid
    where "evolves (steady e) rid (JStr t) (traceSpans v) (traceSpans (snd (handleMessage e m v)))"
    by auto
  from evolves_traceId [OF this] show ?thesis
    by simp
qed

lemma delivered_spans_by_field:
  assumes "t \<noteq> []" and "JSON_parse e (msg_data m) = Some data"
    and "js_get data ''traceId'' = Inr (JStr t)"
    and "map_of (msg_attributes m) ''traceId'' = None \<or>
         map_of (msg_attributes m) ''traceId'' = Some []"
  shows "\<forall>sp \<in> set (drop (length (traceSpans v)) (traceSpans (snd (handleMessage e m v)))).
           span_traceId sp = JStr t"
proof -
  from assms(4) have attr: "\<not> truthy (attr_traceId m)"
    by (auto simp: attr_traceId_def)
  from handleMessage_evolves [of e v m] attr assms(1-3) obtain rid
    where "evolves (steady e) rid (JStr t) (traceSpans v) (traceSpans (snd (handleMessage e m v)))"
    by auto
  from evolves_traceId [OF this] show ?thesis
    by simp
qed

text \<open>
  Claim C4, as stated, fails in its account of the worker's resolution: the worker takes
  \<^verbatim>\<open>message.attributes?.traceId || data.traceId || randomUUID()\<close>, so an attribute that is
  present and empty is passed over for the field of the data, and a field that is present
  and empty is passed over for a fresh identifier.  A delivery whose attribute
  \<^verbatim>\<open>traceId\<close> is \<^verbatim>\<open>""\<close> and whose data has the trace id \<^verbatim>\<open>"trace-1"\<close> gets all its
  spans under \<^verbatim>\<open>"trace-1"\<close>; a delivery without the attribute whose data has the trace id
  \<^verbatim>\<open>""\<close> is resolved to the fresh identifier.
\<close>

theorem empty_attribute_is_passed_over:
  "map_of (msg_attributes
     \<lparr>msg_id = ''delivery-1'', msg_data = ''signal'', msg_attributes = [(''traceId'', [])]\<rparr>)
     ''traceId'' = Some [] \<and>
   JSON_parse env_up ''signal'' = Some github_signal \<and>
   js_get github_signal ''traceId'' = Inr (JStr ''trace-1'') \<and>
   map span_traceId (traceSpans (snd (handleMessage env_up
     \<lparr>msg_id = ''delivery-1'', msg_data = ''signal'', msg_attributes = [(''traceId'', [])]\<rparr>
     world0))) = [JStr ''trace-1'', JStr ''trace-1'', JStr ''trace-1''] \<and>
   js_get (JObj [(''traceId'', JStr [])]) ''traceId'' = Inr (JStr []) \<and>
   uuid_at env_up (tick world0) = ''u'' \<and>
   fst (resolve_traceId env_up
     \<lparr>msg_id = ''delivery-1'', msg_data = ''signal'', msg_attributes = []\<rparr>
     (JObj [(''traceId'', JStr [])]) world0) = Inr (JStr ''u'')"
  by code_simp

text \<open>
  Claim C4, amended.  Let a call of \<^verbatim>\<open>POST /webhook\<close> succeed with the reply 200, where
  \<^verbatim>\<open>randomUUID()\<close> never returns the empty string.  Then the reply carries a trace id
  \<open>t\<close>, and the call has handed to the topic one message, whose attribute \<^verbatim>\<open>traceId\<close>
  is \<open>t\<close> and whose data \<open>dat\<close> is the text of an object whose field \<^verbatim>\<open>traceId\<close> is
  \<open>t\<close>.  The worker resolves the trace id of a delivery as the attribute if it is present
  and not empty, else the field of the data if it is truthy, else a fresh identifier.  So
  for every delivery of the published message, whatever the delivery id, the worker's
  environment and its world, every span the worker records has the trace id \<open>t\<close>; and
  the same holds for a delivery of the data without the attribute (not there, or empty), if
  the worker's parser reads the data back as the object.
\<close>

theorem traceId_reaches_worker:
  assumes "\<forall>n. uuid_at e n \<noteq> []"
    and "webhook e body w = (Inr rp, w')"
    and "reply_status rp = 200"
  shows "\<exists>t mid src pl stamp dat.
     dat = JSON_stringify e
             (JObj [(''source'', src), (''payload'', pl), (''traceId'', JStr t),
                    (''receivedAt'', JStr stamp)]) \<and>
     rp = \<lparr>reply_status = 200,
           reply_body = JObj [(''status'', JStr ''queued''), (''messageId'', JStr mid),
                              (''traceId'', JStr t)]\<rparr> \<and>
     topic w' = topic w @
       [\<lparr>pub_messageId = mid, pub_data = dat, pub_attributes = [(''traceId'', t)]\<rparr>] \<and>
     (\<forall>e' did v.
        \<forall>sp \<in> set (drop (length (traceSpans v))
             (traceSpans (snd (handleMessage e'
                \<lparr>msg_id = did, msg_data = dat, msg_attributes = [(''traceId'', t)]\<rparr> v)))).
           span_traceId sp = JStr t) \<and>
     (\<forall>e' did attrs v.
        JSON_parse e' dat =
          Some (JObj [(''source'', src), (''payload'', pl), (''traceId'', JStr t),
                      (''receivedAt'', JStr stamp)]) \<and>
        (map_of attrs ''traceId'' = None \<or> map_of attrs ''traceId'' = Some []) \<longrightarrow>
        (\<forall>sp \<in> set (drop (length (traceSpans v))
             (traceSpans (snd (handleMessage e'
                \<lparr>msg_id = did, msg_data = dat, msg_attributes = attrs\<rparr> v)))).
           span_traceId sp = JStr t)) \<and>
     (\<forall>e' m data v.
        fst (resolve_traceId e' m data v) =
          (case map_of (msg_attributes m) ''traceId'' of
             Some (c # cs) \<Rightarrow> Inr (JStr (c # cs))
           | _ \<Rightarrow>
               (case js_get data ''traceId'' of
                  Inl x \<Rightarrow> Inl x
                | Inr d \<Rightarrow> Inr (if truthy d then d else JStr (uuid_at e' (tick v))))))"
proof -
  have accepted: "truthy body \<and> typeof body = ''object''"
  proof (rule ccontr)
    assume "\<not> (truthy body \<and> typeof body = ''object'')"
    then have "\<not> truthy body \<or> typeof body \<noteq> ''object''"
      by simp
    from webhook_rejected [OF this, of e w] assms(2) have "reply_status rp = 400"
      by (simp add: wp_def)
    with assms(3) show False
      by simp
  qed
  then obtain s p where get: "js_get body ''source'' = Inr s" "js_get body ''payload'' = Inr p"
    using accepted_reads by blast
  define t where "t = uuid_at e (Suc (tick w))"
  define stamp where "stamp = toISOString e (now w + elapsed_at e (tick w) +
      elapsed_at e (Suc (Suc (Suc (Suc (tick w))))))"
  define src where "src = js_or s (JStr ''unknown'')"
  define pl where "pl = js_or p body"
  define obj where "obj = JObj [(''source'', src), (''payload'', pl), (''traceId'', JStr t),
      (''receivedAt'', JStr stamp)]"
  define dat where "dat = JSON_stringify e obj"
  from webhook_accepted [of body s p e w] accepted get assms(2,3)
  obtain mid where sent:
    "rp = \<lparr>reply_status = 200,
           reply_body = JObj [(''status'', JStr ''queued''), (''messageId'', JStr mid),
                              (''traceId'', JStr t)]\<rparr>"
    "topic w' = topic w @
       [\<lparr>pub_messageId = mid, pub_data = dat, pub_attributes = [(''traceId'', t)]\<rparr>]"
    by (auto simp: wp_def t_def stamp_def src_def pl_def obj_def dat_def build_message_def
        queued_reply_def outgoing_def)
  from assms(1) have ne: "t \<noteq> []"
    by (simp add: t_def)
  have by_attribute: "\<forall>e' did v. \<forall>sp \<in> set (drop (length (traceSpans v))
             (traceSpans (snd (handleMessage e'
                \<lparr>msg_id = did, msg_data = dat, msg_attributes = [(''traceId'', t)]\<rparr> v)))).
           span_traceId sp = JStr t"
    by (intro allI, rule delivered_spans [OF ne]) simp
  have by_field: "\<forall>sp \<in> set (drop (length (traceSpans v))
             (traceSpans (snd (handleMessage e'
                \<lparr>msg_id = did, msg_data = dat, msg_attributes = attrs\<rparr> v)))).
           span_traceId sp = JStr t"
    if "JSON_parse e' dat = Some obj \<and>
        (map_of attrs ''traceId'' = None \<or> map_of attrs ''traceId'' = Some [])"
    for e' did attrs v
    by (rule delivered_spans_by_field [OF ne, of _ _ obj]) (use that in \<open>simp_all add: obj_def\<close>)
  have order: "\<forall>e' m data v. fst (resolve_traceId e' m data v) =
          (case map_of (msg_attributes m) ''traceId'' of
             Some (c # cs) \<Rightarrow> Inr (JStr (c # cs))
           | _ \<Rightarrow>
               (case js_get data ''traceId'' of
                  Inl x \<Rightarrow> Inl x
                | Inr d \<Rightarrow> Inr (if truthy d then d else JStr (uuid_at e' (tick v)))))"
    by (simp add: resolve_traceId_order attr_traceId_def split: option.splits list.splits)
  have main: "dat = JSON_stringify e
             (JObj [(''source'', src), (''payload'', pl), (''traceId'', JStr t),
                    (''receivedAt'', JStr stamp)]) \<and>
     rp = \<lparr>reply_status = 200,
           reply_body = JObj [(''status'', JStr ''queued''), (''messageId'', JStr mid),
                              (''traceId'', JStr t)]\<rparr> \<and>
     topic w' = topic w @
       [\<lparr>pub_messageId = mid, pub_data = dat, pub_attributes = [(''traceId'', t)]\<rparr>] \<and>
     (\<forall>e' did v.
        \<forall>sp \<in> set (drop (length (traceSpans v))
             (traceSpans (snd (handleMessage e'
                \<lparr>msg_id = did, msg_data = dat, msg_attributes = [(''traceId'', t)]\<rparr> v)))).
           span_traceId sp = JStr t) \<and>
     (\<forall>e' did attrs v.
        JSON_parse e' dat =
          Some (JObj [(''source'', src), (''payload'', pl), (''traceId'', JStr t),
                      (''receivedAt'', JStr stamp)]) \<and>
        (map_of attrs ''traceId'' = None \<or> map_of attrs ''traceId'' = Some []) \<longrightarrow>
        (\<forall>sp \<in> set (drop (length (traceSpans v))
             (traceSpans (snd (handleMessage e'
                \<lparr>msg_id = did, msg_data = dat, msg_attributes = attrs\<rparr> v)))).
           span_traceId sp = JStr t)) \<and>
     (\<forall>e' m data v.
        fst (resolve_traceId e' m data v) =
          (case map_of (msg_attributes m) ''traceId'' of
             Some (c # cs) \<Rightarrow> Inr (JStr (c # cs))
           | _ \<Rightarrow>
               (case js_get data ''traceId'' of
                  Inl x \<Rightarrow> Inl x
                | Inr d \<Rightarrow> Inr (if truthy d then d else JStr (uuid_at e' (tick v))))))"
  proof (intro conjI)
    show "dat = JSON_stringify e
             (JObj [(''source'', src), (''payload'', pl), (''traceId'', JStr t),
                    (''receivedAt'', JStr stamp)])"
      by (simp add: dat_def obj_def)
  qed (use sent by_attribute by_field order in \<open>simp_all add: obj_def\<close>)
  show ?thesis
    by (rule exI)+ (rule main)
qed

text \<open>
  The request \<open>github_body\<close> through the gateway, and the message it queues through the
  worker: delivered with its attribute, and delivered without it.
\<close>

lemma github_request_queued:
  "webhook (env_rejecting 100) github_body world0 =
     (Inr \<lparr>reply_status = 200,
           reply_body = JObj [(''status'', JStr ''queued''), (''messageId'', JStr ''pubsub-1''),
                              (''traceId'', JStr ''uu'')]\<rparr>,
      snd (webhook (env_rejecting 100) github_body world0)) \<and>
   topic (snd (webhook (env_rejecting 100) github_body world0)) =
     [\<lparr>pub_messageId = ''pubsub-1'', pub_data = render queued_signal,
       pub_attributes = [(''traceId'', ''uu'')]\<rparr>]"
  by code_simp

lemma queued_signal_delivered:
  "JSON_parse env_worker (render queued_signal) = Some queued_signal \<and>
   map span_traceId (traceSpans (snd (handleMessage env_worker
     \<lparr>msg_id = ''delivery-1'', msg_data = render queued_signal,
      msg_attributes = [(''traceId'', ''uu'')]\<rparr>
     (snd (webhook (env_rejecting 100) github_body world0))))) =
     [JStr ''uu'', JStr ''uu'', JStr ''uu'', JStr ''uu'', JStr ''uu''] \<and>
   map span_traceId (traceSpans (snd (handleMessage env_worker
     \<lparr>msg_id = ''delivery-1'', msg_data = render queued_signal, msg_attributes = []\<rparr>
     (snd (webhook (env_rejecting 100) github_body world0))))) =
     [JStr ''uu'', JStr ''uu'', JStr ''uu'', JStr ''uu'', JStr ''uu'']"
  by code_simp

theorem traceId_reaches_worker_witness:
  "(\<forall>n. uuid_at (env_rejecting 100) n \<noteq> []) \<and>
   webhook (env_rejecting 100) github_body world0 =
     (Inr \<lparr>reply_status = 200,
           reply_body = JObj [(''status'', JStr ''queued''), (''messageId'', JStr ''pubsub-1''),
                              (''traceId'', JStr ''uu'')]\<rparr>,
      snd (webhook (env_rejecting 100) github_body world0)) \<and>
   topic (snd (webhook (env_rejecting 100) github_body world0)) =
     [\<lparr>pub_messageId = ''pubsub-1'', pub_data = render queued_signal,
       pub_attributes = [(''traceId'', ''uu'')]\<rparr>] \<and>
   JSON_parse env_worker (render queued_signal) = Some queued_signal \<and>
   list_all (\<lambda>sp. span_traceId sp = JStr ''uu'')
     (drop (length (traceSpans (snd (webhook (env_rejecting 100) github_body world0))))
        (traceSpans (snd (handleMessage env_worker
           \<lparr>msg_id = ''delivery-1'', msg_data = render queued_signal,
            msg_attributes = [(''traceId'', ''uu'')]\<rparr>
           (snd (webhook (env_rejecting 100) github_body world0)))))) \<and>
   map span_traceId (traceSpans (snd (handleMessage env_worker
     \<lparr>msg_id = ''delivery-1'', msg_data = render queued_signal,
      msg_attributes = [(''traceId'', ''uu'')]\<rparr>
     (snd (webhook (env_rejecting 100) github_body world0))))) =
     [JStr ''uu'', JStr ''uu'', JStr ''uu'', JStr ''uu'', JStr ''uu''] \<and>
   map span_traceId (traceSpans (snd (handleMessage env_worker
     \<lparr>msg_id = ''delivery-1'', msg_data = render queued_signal, msg_attributes = []\<rparr>
     (snd (webhook (env_rejecting 100) github_body world0))))) =
     [JStr ''uu'', JStr ''uu'', JStr ''uu'', JStr ''uu'', JStr ''uu'']"
proof -
  let ?w' = "snd (webhook (env_rejecting 100) github_body world0)"
  have u: "\<forall>n. uuid_at (env_rejecting 100) n \<noteq> []"
    by (simp add: env_rejecting_def env_up_def)
  note run = github_request_queued [THEN conjunct1]
  note sent = github_request_queued [THEN conjunct2]
  from traceId_reaches_worker [OF u run]
  obtain t mid dat where
    "\<lparr>reply_status = 200,
      reply_body = JObj [(''status'', JStr ''queued''), (''messageId'', JStr ''pubsub-1''),
                         (''traceId'', JStr ''uu'')]\<rparr> =
     \<lparr>reply_status = 200,
      reply_body = JObj [(''status'', JStr ''queued''), (''messageId'', JStr mid),
                         (''traceId'', JStr t)]\<rparr>"
    "topic ?w' = topic world0 @
       [\<lparr>pub_messageId = mid, pub_data = dat, pub_attributes = [(''traceId'', t)]\<rparr>]"
    "\<forall>e' did v. \<forall>sp \<in> set (drop (length (traceSpans v))
             (traceSpans (snd (handleMessage e'
                \<lparr>msg_id = did, msg_data = dat, msg_attributes = [(''traceId'', t)]\<rparr> v)))).
           span_traceId sp = JStr t"
    by auto
  with sent have "t = ''uu''" "dat = render queued_signal"
    by (simp_all add: world0_def)
  with \<open>\<forall>e' did v. \<forall>sp \<in> set (drop (length (traceSpans v))
             (traceSpans (snd (handleMessage e'
                \<lparr>msg_id = did, msg_data = dat, msg_attributes = [(''traceId'', t)]\<rparr> v)))).
           span_traceId sp = JStr t\<close>
  have "list_all (\<lambda>sp. span_traceId sp = JStr ''uu'')
     (drop (length (traceSpans ?w'))
        (traceSpans (snd (handleMessage env_worker
           \<lparr>msg_id = ''delivery-1'', msg_data = render queued_signal,
            msg_attributes = [(''traceId'', ''uu'')]\<rparr> ?w'))))"
    unfolding list_all_iff by blast
  with u run sent queued_signal_delivered show ?thesis
    by blast
qed

section \<open>Validation, counters and the published message\<close>

lemma webhook_counts:
  assumes "truthy body" and "typeof body = ''object''"
  shows "totalReceived (auditCounters (snd (webhook e body w))) =
           Suc (totalReceived (auditCounters w)) \<and>
         totalPublished (auditCounters (snd (webhook e body w))) \<le>
           Suc (totalPublished (auditCounters w)) \<and>
         totalFailed (auditCounters (snd (webhook e body w))) \<le>
           Suc (totalFailed (auditCounters w)) \<and>
         (\<forall>rp. fst (webhook e body w) = Inr rp \<longrightarrow> reply_status rp \<noteq> 400)"
proof -
  from accepted_reads [OF assms] obtain s p
    where "js_get body ''source'' = Inr s" "js_get body ''payload'' = Inr p"
    by blast
  from webhook_accepted [OF assms this, of e w] show ?thesis
    by (auto simp: wp_fst_snd counted_def queued_reply_def split: sum.splits)
qed

text \<open>
  Claim C5 is right about what the handler should do and the code misses a case: an
  array is not a JSON object, yet \<^verbatim>\<open>typeof\<close> calls it \<^verbatim>\<open>'object'\<close>, so the handler lets
  every array through.  For every array body, in every environment and world, the reply is
  never 400 and \<^verbatim>\<open>totalReceived\<close> grows by one.
\<close>

theorem webhook_accepts_arrays:
  "(\<forall>rp. fst (webhook e (JArr xs) w) = Inr rp \<longrightarrow> reply_status rp \<noteq> 400) \<and>
   totalReceived (auditCounters (snd (webhook e (JArr xs) w))) =
     Suc (totalReceived (auditCounters w))"
  using webhook_counts [of "JArr xs" e w] by simp

lemma empty_array_queued:
  "fst (webhook env_up (JArr []) world0) = Inr (queued_reply ''pubsub-1'' ''uu'')"
  by code_simp

theorem webhook_accepts_arrays_witness:
  "fst (webhook env_up (JArr []) world0) = Inr (queued_reply ''pubsub-1'' ''uu'') \<and>
   reply_status (queued_reply ''pubsub-1'' ''uu'') = 200 \<and>
   totalReceived (auditCounters world0) = 0 \<and>
   totalReceived (auditCounters (snd (webhook env_up (JArr []) world0))) = 1"
  using webhook_accepts_arrays [of env_up "[]" world0] empty_array_queued
  by (simp add: queued_reply_def world0_def)

text \<open>
  What claim C5 says of the other bodies holds: a body that is falsy or whose
  \<^verbatim>\<open>typeof\<close> is not \<^verbatim>\<open>'object'\<close> gets the reply 400 with the error text, and the
  counters, the topic and the span table stay as they were.
\<close>

lemma webhook_rejects:
  assumes "\<not> truthy body \<or> typeof body \<noteq> ''object''"
  shows "fst (webhook e body w) =
           Inr \<lparr>reply_status = 400,
                reply_body = JObj [(''error'', JStr ''Request body must be a JSON object'')]\<rparr> \<and>
         auditCounters (snd (webhook e body w)) = auditCounters w"
  using webhook_rejected [OF assms, of e w] by (simp add: wp_fst_snd split: sum.splits)

text \<open>
  Claim C10 states the invariant the counters are meant to keep, and the code breaks it:
  the span writes that follow a successful publish are inside the \<^verbatim>\<open>try\<close> block, so when
  one of them throws the \<^verbatim>\<open>catch\<close> block counts a failure for a message already counted
  as published (and replies 500 for a message that is in the topic).  One request, for
  which the store rejects the write of the \<^verbatim>\<open>pubsub_publish\<close> span, leaves
  \<^verbatim>\<open>totalReceived = 1\<close>, \<^verbatim>\<open>totalPublished = 1\<close> and \<^verbatim>\<open>totalFailed = 1\<close>.  Each
  counter alone keeps its bound on every path: an accepted request adds one to
  \<^verbatim>\<open>totalReceived\<close> and at most one to each of the other two (\<open>webhook_counts\<close>).
\<close>

theorem span_failure_counts_twice:
  "auditCounters (snd (webhook (env_rejecting 8) github_body world0)) =
     \<lparr>totalReceived = 1, totalPublished = 1, totalFailed = 1, startedAt = ''boot''\<rparr> \<and>
   fst (webhook (env_rejecting 8) github_body world0) =
     Inr \<lparr>reply_status = 500, reply_body = JObj [(''error'', JStr ''Failed to queue message'')]\<rparr> \<and>
   map pub_messageId (topic (snd (webhook (env_rejecting 8) github_body world0))) = [''pubsub-1''] \<and>
   map span_operation (traceSpans (snd (webhook (env_rejecting 8) github_body world0))) =
     [''webhook_receive'']"
  by code_simp

theorem span_failure_counts_twice_witness:
  "totalReceived (auditCounters (snd (webhook (env_rejecting 8) github_body world0))) <
   totalPublished (auditCounters (snd (webhook (env_rejecting 8) github_body world0))) +
   totalFailed (auditCounters (snd (webhook (env_rejecting 8) github_body world0)))"
  using span_failure_counts_twice by simp

text \<open>
  Claim C9, as stated, fails twice.  A source that is truthy and not a string is published
  as it is, not as \<^verbatim>\<open>"unknown"\<close>: the body \<^verbatim>\<open>{"source": 5}\<close> is accepted, and the data
  handed to the topic is the text of a message whose source is the number 5, which is not
  the text of that message with the source \<^verbatim>\<open>"unknown"\<close>.  And an accepted body is not
  always published: when the store rejects the write of the root span the handler throws
  before the publish, and when the topic refuses the publish the reply is 500; in both
  cases the topic holds no message.
\<close>

theorem number_source_is_published:
  "js_get numbered_body ''source'' = Inr (JNum 5) \<and> truthy (JNum 5) \<and>
   fst (webhook (env_rejecting 100) numbered_body world0) =
     Inr \<lparr>reply_status = 200,
          reply_body = JObj [(''status'', JStr ''queued''), (''messageId'', JStr ''pubsub-1''),
                             (''traceId'', JStr ''uu'')]\<rparr> \<and>
   map pub_data (topic (snd (webhook (env_rejecting 100) numbered_body world0))) =
     [render (JObj [(''source'', JNum 5), (''payload'', numbered_body),
                    (''traceId'', JStr ''uu''),
                    (''receivedAt'', JStr ''2026-01-01T00:00:00.000Z'')])] \<and>
   render (JObj [(''source'', JNum 5), (''payload'', numbered_body),
                 (''traceId'', JStr ''uu''),
                 (''receivedAt'', JStr ''2026-01-01T00:00:00.000Z'')]) \<noteq>
   render (JObj [(''source'', JStr ''unknown''), (''payload'', numbered_body),
                 (''traceId'', JStr ''uu''),
                 (''receivedAt'', JStr ''2026-01-01T00:00:00.000Z'')]) \<and>
   fst (webhook env_down github_body world0) = Inl PrismaError \<and>
   topic (snd (webhook env_down github_body world0)) = [] \<and>
   fst (webhook env_topic_down github_body world0) =
     Inr \<lparr>reply_status = 500, reply_body = JObj [(''error'', JStr ''Failed to queue message'')]\<rparr> \<and>
   topic (snd (webhook env_topic_down github_body world0)) = []"
  by code_simp

text \<open>
  Claim C9, amended.  For every body that is a JSON object, with \<open>s\<close> its
  \<^verbatim>\<open>source\<close> and \<open>p\<close> its \<^verbatim>\<open>payload\<close> (\<^verbatim>\<open>undefined\<close> when missing): the message of
  the request is the object whose source is \<open>s\<close> when that is truthy, whatever its type,
  and \<^verbatim>\<open>"unknown"\<close> otherwise, whose payload is \<open>p\<close> when that is truthy and the whole
  body otherwise, and whose trace id and time are those of the request.  The gateway hands
  the text of that message to the topic, with the trace id as attribute, exactly when the
  store takes the write of the root span and the topic accepts the publish; otherwise the
  topic stays as it was.  The reply is never 400, whether or not the body has a source or a
  payload, and when it is 200 the message is in the topic.
\<close>

theorem webhook_message_fields:
  fixes e :: env and kvs :: "(string \<times> js) list" and w :: world and s p :: js
  defines "k \<equiv> tick w"
  defines "message \<equiv>
     JObj [(''source'', if truthy s then s else JStr ''unknown''),
           (''payload'', if truthy p then p else JObj kvs),
           (''traceId'', JStr (uuid_at e (k + 1))),
           (''receivedAt'',
            JStr (toISOString e (now w + elapsed_at e k + elapsed_at e (k + 4))))]"
  assumes "js_get (JObj kvs) ''source'' = Inr s" and "js_get (JObj kvs) ''payload'' = Inr p"
  shows "topic (snd (webhook e (JObj kvs) w)) =
      (if store_rejects e (k + 3) \<or> uuid_at e (k + 2) \<in> span_id ` set (traceSpans w)
       then topic w
       else case publish_at e (k + 6) of
              None \<Rightarrow> topic w
            | Some mid \<Rightarrow>
                topic w @
                  [\<lparr>pub_messageId = mid, pub_data = JSON_stringify e message,
                    pub_attributes = [(''traceId'', uuid_at e (k + 1))]\<rparr>]) \<and>
    (\<forall>rp. fst (webhook e (JObj kvs) w) = Inr rp \<longrightarrow> reply_status rp \<noteq> 400) \<and>
    (\<forall>rp. fst (webhook e (JObj kvs) w) = Inr rp \<and> reply_status rp = 200 \<longrightarrow>
       (\<exists>mid. publish_at e (k + 6) = Some mid \<and>
          rp = \<lparr>reply_status = 200,
                reply_body = JObj [(''status'', JStr ''queued''), (''messageId'', JStr mid),
                                   (''traceId'', JStr (uuid_at e (k + 1)))]\<rparr> \<and>
          topic (snd (webhook e (JObj kvs) w)) =
            topic w @
              [\<lparr>pub_messageId = mid, pub_data = JSON_stringify e message,
                pub_attributes = [(''traceId'', uuid_at e (k + 1))]\<rparr>]))"
proof -
  have accepted: "truthy (JObj kvs)" "typeof (JObj kvs) = ''object''"
    by simp_all
  obtain r w' where run: "webhook e (JObj kvs) w = (r, w')"
    by (cases "webhook e (JObj kvs) w")
  from webhook_accepted [OF accepted assms(3,4), of e w] run
  show ?thesis
    unfolding k_def message_def
    by (cases r)
      (auto simp: wp_def eval_nat_numeral build_message_def js_or_def queued_reply_def
        outgoing_def)
qed

lemma numbered_request_queued:
  "fst (webhook (env_rejecting 100) numbered_body world0) =
     Inr \<lparr>reply_status = 200,
          reply_body = JObj [(''status'', JStr ''queued''), (''messageId'', JStr ''pubsub-1''),
                             (''traceId'', JStr ''uu'')]\<rparr>"
  by code_simp

text \<open>
  The body \<^verbatim>\<open>{"source": 5}\<close>, which has no payload, and the body \<^verbatim>\<open>{}\<close>, which has
  neither.
\<close>

theorem webhook_message_fields_witness:
  "js_get (JObj [(''source'', JNum 5)]) ''source'' = Inr (JNum 5) \<and>
   js_get (JObj [(''source'', JNum 5)]) ''payload'' = Inr JUndefined \<and>
   fst (webhook (env_rejecting 100) (JObj [(''source'', JNum 5)]) world0) =
     Inr \<lparr>reply_status = 200,
          reply_body = JObj [(''status'', JStr ''queued''), (''messageId'', JStr ''pubsub-1''),
                             (''traceId'', JStr ''uu'')]\<rparr> \<and>
   topic (snd (webhook (env_rejecting 100) (JObj [(''source'', JNum 5)]) world0)) =
     [\<lparr>pub_messageId = ''pubsub-1'',
       pub_data = render (JObj [(''source'', JNum 5), (''payload'', JObj [(''source'', JNum 5)]),
                                (''traceId'', JStr ''uu''),
                                (''receivedAt'', JStr ''2026-01-01T00:00:00.000Z'')]),
       pub_attributes = [(''traceId'', ''uu'')]\<rparr>] \<and>
   js_get (JObj []) ''source'' = Inr JUndefined \<and>
   js_get (JObj []) ''payload'' = Inr JUndefined \<and>
   topic (snd (webhook (env_rejecting 100) (JObj []) world0)) =
     [\<lparr>pub_messageId = ''pubsub-1'',
       pub_data = render (JObj [(''source'', JStr ''unknown''), (''payload'', JObj []),
                                (''traceId'', JStr ''uu''),
                                (''receivedAt'', JStr ''2026-01-01T00:00:00.000Z'')]),
       pub_attributes = [(''traceId'', ''uu'')]\<rparr>]"
proof -
  have g: "js_get (JObj [(''source'', JNum 5)]) ''source'' = Inr (JNum 5)"
    "js_get (JObj [(''source'', JNum 5)]) ''payload'' = Inr JUndefined"
    "js_get (JObj []) ''source'' = Inr JUndefined"
    "js_get (JObj []) ''payload'' = Inr JUndefined"
    by simp_all
  from webhook_message_fields [OF g(1,2), of "env_rejecting 100" world0]
  have "topic (snd (webhook (env_rejecting 100) (JObj [(''source'', JNum 5)]) world0)) =
     [\<lparr>pub_messageId = ''pubsub-1'',
       pub_data = render (JObj [(''source'', JNum 5), (''payload'', JObj [(''source'', JNum 5)]),
                                (''traceId'', JStr ''uu''),
                                (''receivedAt'', JStr ''2026-01-01T00:00:00.000Z'')]),
       pub_attributes = [(''traceId'', ''uu'')]\<rparr>]"
    by (simp add: env_rejecting_def env_up_def world0_def eval_nat_numeral)
  moreover from webhook_message_fields [OF g(3,4), of "env_rejecting 100" world0]
  have "topic (snd (webhook (env_rejecting 100) (JObj []) world0)) =
     [\<lparr>pub_messageId = ''pubsub-1'',
       pub_data = render (JObj [(''source'', JStr ''unknown''), (''payload'', JObj []),
                                (''traceId'', JStr ''uu''),
                                (''receivedAt'', JStr ''2026-01-01T00:00:00.000Z'')]),
       pub_attributes = [(''traceId'', ''uu'')]\<rparr>]"
    by (simp add: env_rejecting_def env_up_def world0_def eval_nat_numeral)
  ultimately show ?thesis
    using g numbered_request_queued by (simp add: numbered_body_def)
qed

end
